theory Spec2Isabelle
  imports Main
begin

section \<open>The readiness checks of the Kubernetes client (client/client.go)\<close>

text \<open>
  The client talks to a cluster and to the host's clock, file system and shell. The
  embedding makes these explicit:
  \<^item> the cluster is a record of response functions indexed by the time of the call, so a
    pod may be Pending at one poll tick and Running at the next;
  \<^item> the program state holds the clock, the files written so far, and the trace of the
    effects performed, in order, each stamped with the time it happened;
  \<^item> API calls return at the instant they are made; time passes in \<open>time.Sleep\<close>, in
    the waits of the poller, and while the scanner waits for the next line of a log
    stream. The listings run on the background context, so in the program nothing
    bounds the time they take: the properties about deadlines below give no upper
    bound on the time a check takes;
  \<^item> a context made by \<open>context.WithTimeout\<close> is seen done from its deadline plus the lag
    of the runtime's timer on, so that a sleep ending at the very deadline may find the
    context done or not yet done; a read that waits on a stream opened with the context
    is cut when the context is done.
  Times and durations are nanoseconds, as in Go's \<open>time.Duration\<close>; they are unbounded
  integers here (no check below comes near the 64-bit range).
\<close>

subsection \<open>Constants and data\<close>

type_synonym time = int
type_synonym duration = int

definition Second :: duration where
  "Second = 1000000000"

definition TempDebugManifest :: string where
  "TempDebugManifest = ''tmp-manifest.yaml''"

definition LogPollInterval :: duration where
  "LogPollInterval = 2 * Second"

definition ContainerStatePollInterval :: duration where
  "ContainerStatePollInterval = 2 * Second"

text \<open>
  Errors are values. \<open>errors.New\<close> carries a fixed message; \<open>fmt.Errorf\<close> is kept as its
  format string together with its arguments, so that what an error message is built
  from stays visible without modelling Go's formatting of a duration.
\<close>

datatype fmtArg = ArgString string | ArgDuration duration

datatype error = ErrorNew string | Errorf string "fmtArg list"

text \<open>The poller's \<open>wait.ErrWaitTimeout\<close> and the context's \<open>context.DeadlineExceeded\<close>.\<close>

definition ErrWaitTimeout :: error where
  "ErrWaitTimeout = ErrorNew ''timed out waiting for the condition''"

definition DeadlineExceeded :: error where
  "DeadlineExceeded = ErrorNew ''context deadline exceeded''"

text \<open>The phases the API defines; the checks tell Running, Failed and Succeeded from the rest.\<close>

datatype PodPhase = PodPending | PodRunning | PodSucceeded | PodFailed | PodUnknown

record ContainerStatus =
  ContainerName :: string
  Ready :: bool

record Pod =
  Name :: string
  Labels :: "string \<rightharpoonup> string"
  Phase :: PodPhase
  ContainerStatuses :: "ContainerStatus list"

record ReadyCheckData =
  ReadinessProbeCheckSelector :: string
  Selector :: string
  Container :: string
  LogSubStr :: string
  Timeout :: duration

text \<open>
  The interface \<open>ManifestOutput\<close>: the two getters the checks call. Their answers do not
  change during a check.
\<close>

record ManifestOutput =
  GetNamespace :: string
  GetReadyCheckData :: ReadyCheckData

text \<open>
  What the client does not control. The cluster API it consumes: every call is answered
  as of the time it is made. A log stream is the finite list of the lines of the tail,
  each with the time the scanner waits for it. And the Go runtime's timer: \<open>timerLag d\<close>
  is how long after a deadline \<open>d\<close> the done channel of a context with that deadline
  is closed (zero when the timer wins every race).
\<close>

record cluster =
  podsList :: "time \<Rightarrow> string \<Rightarrow> string \<Rightarrow> error + Pod list"
  podsGet :: "time \<Rightarrow> string \<Rightarrow> string \<Rightarrow> error + Pod"
  podsGetLogs :: "time \<Rightarrow> string \<Rightarrow> string \<Rightarrow> string \<Rightarrow> error + (nat \<times> string) list"
  namespacesGet :: "time \<Rightarrow> string \<Rightarrow> error + unit"
  timerLag :: "time \<Rightarrow> nat"

text \<open>
  The host: whether \<open>os.WriteFile\<close> fails for a file name and content, and what the
  command runner \<open>ExecCmd\<close> (defined elsewhere in the package) answers for a command
  line, given the files present when it runs.
\<close>

record host =
  writeFileError :: "string \<Rightarrow> string \<Rightarrow> error option"
  execCmd :: "(string \<rightharpoonup> string) \<Rightarrow> string \<Rightarrow> error option"

datatype event =
    ListPodsCall string string
  | GetPodCall string string "PodPhase option"
  | GetLogsCall string string string
  | GetNamespaceCall string
  | SleepCall duration
  | WriteFileCall string string bool
  | ExecCmdCall string

record state =
  now :: time
  trace :: "(time \<times> event) list"
  files :: "string \<rightharpoonup> string"

definition emit :: "event \<Rightarrow> state \<Rightarrow> state" where
  "emit e s = s\<lparr>trace := trace s @ [(now s, e)]\<rparr>"

definition Sleep :: "duration \<Rightarrow> state \<Rightarrow> state" where
  "Sleep d s = (emit (SleepCall d) s)\<lparr>now := now s + max 0 d\<rparr>"

subsection \<open>Listing pods and labels\<close>

definition ListPods :: "cluster \<Rightarrow> string \<Rightarrow> string \<Rightarrow> state \<Rightarrow> (error + Pod list) \<times> state" where
  "ListPods cl namespace selector s =
     (podsList cl (now s) namespace selector, emit (ListPodsCall namespace selector) s)"

text \<open>Reading a Go map at a missing key gives the zero value, the empty string.\<close>

definition label :: "Pod \<Rightarrow> string \<Rightarrow> string" where
  "label p k = (case Labels p k of None \<Rightarrow> [] | Some v \<Rightarrow> v)"

text \<open>
  The loop of \<open>UniqueLabels\<close>: the map \<open>isUnique\<close> is consulted for every pod and passed
  on as it is, since the source never stores into it.
\<close>

fun uniqueLabelsLoop :: "Pod list \<Rightarrow> string list \<Rightarrow> (string \<rightharpoonup> bool) \<Rightarrow> string list" where
  "uniqueLabelsLoop [] uniqueLabels isUnique = uniqueLabels"
| "uniqueLabelsLoop (p # ps) uniqueLabels isUnique =
     (let appLabel = label p ''app'' in
      if isUnique appLabel = None
      then uniqueLabelsLoop ps (uniqueLabels @ [appLabel]) isUnique
      else uniqueLabelsLoop ps uniqueLabels isUnique)"

definition UniqueLabels :: "cluster \<Rightarrow> string \<Rightarrow> string \<Rightarrow> state \<Rightarrow> (error + string list) \<times> state" where
  "UniqueLabels cl namespace selector s =
     (case ListPods cl namespace selector s of
        (Inl err, s1) \<Rightarrow> (Inl err, s1)
      | (Inr podList, s1) \<Rightarrow> (Inr (uniqueLabelsLoop podList [] Map.empty), s1))"

subsection \<open>The namespace probe\<close>

definition NamespaceExists :: "cluster \<Rightarrow> string \<Rightarrow> state \<Rightarrow> bool \<times> state" where
  "NamespaceExists cl namespace s =
     (case namespacesGet cl (now s) namespace of
        Inl err \<Rightarrow> (False, emit (GetNamespaceCall namespace) s)
      | Inr u \<Rightarrow> (True, emit (GetNamespaceCall namespace) s))"

subsection \<open>Writing and applying a manifest\<close>

text \<open>
  \<open>os.WriteFile\<close> truncates the file and writes the content. A failed write is recorded
  in the trace; what it leaves in the file is not tracked (nothing below reads it).
\<close>

definition WriteFile :: "host \<Rightarrow> string \<Rightarrow> string \<Rightarrow> state \<Rightarrow> (error + unit) \<times> state" where
  "WriteFile h name data s =
     (case writeFileError h name data of
        Some err \<Rightarrow> (Inl err, emit (WriteFileCall name data False) s)
      | None \<Rightarrow> (Inr (), (emit (WriteFileCall name data True) s)\<lparr>files := (files s)(name \<mapsto> data)\<rparr>))"

definition ExecCmd :: "host \<Rightarrow> string \<Rightarrow> state \<Rightarrow> (error + unit) \<times> state" where
  "ExecCmd h cmd s =
     (case execCmd h (files s) cmd of
        Some err \<Rightarrow> (Inl err, emit (ExecCmdCall cmd) s)
      | None \<Rightarrow> (Inr (), emit (ExecCmdCall cmd) s))"

definition Apply :: "host \<Rightarrow> string \<Rightarrow> state \<Rightarrow> (error + unit) \<times> state" where
  "Apply h manifest s =
     (case WriteFile h TempDebugManifest manifest s of
        (Inl err, s1) \<Rightarrow> (Inl err, s1)
      | (Inr u, s1) \<Rightarrow> ExecCmd h (''kubectl apply -f '' @ TempDebugManifest) s1)"

definition Create :: "host \<Rightarrow> string \<Rightarrow> state \<Rightarrow> (error + unit) \<times> state" where
  "Create h manifest s =
     (case WriteFile h TempDebugManifest manifest s of
        (Inl err, s1) \<Rightarrow> (Inl err, s1)
      | (Inr u, s1) \<Rightarrow> ExecCmd h (''kubectl create -f '' @ TempDebugManifest) s1)"

subsection \<open>The Pod-Running check\<close>

text \<open>
  The condition function \<open>isPodRunning\<close> returns Go's pair \<open>(bool, error)\<close>; the get it made
  and the phase it saw go into the trace.
\<close>

definition isPodRunning :: "cluster \<Rightarrow> string \<Rightarrow> string \<Rightarrow> state \<Rightarrow> (bool \<times> error option) \<times> state" where
  "isPodRunning cl podName namespace s =
     (case podsGet cl (now s) namespace podName of
        Inl err \<Rightarrow> ((False, Some err), emit (GetPodCall namespace podName None) s)
      | Inr pod \<Rightarrow>
          (case Phase pod of
             PodRunning \<Rightarrow> (True, None)
           | PodFailed \<Rightarrow> (False, Some (ErrorNew ''pod failed''))
           | PodSucceeded \<Rightarrow> (False, Some (ErrorNew ''pod succeeded, are we expecting a Job type''))
           | _ \<Rightarrow> (False, None),
           emit (GetPodCall namespace podName (Some (Phase pod))) s))"

text \<open>
  \<open>wait.PollImmediate\<close> belongs to the Kubernetes library, not to this package. It is
  modelled as the library documents and implements it: the condition runs once at
  once, then at every tick of the interval; an error or \<open>true\<close> from the condition ends
  the poll on the spot; when the timeout fires the condition runs one last time and
  the poll ends with \<open>ErrWaitTimeout\<close>; a timeout of zero means no timeout at all, so
  the poll may never return, which is the value \<open>None\<close> here.
\<close>

type_synonym conditionFunc = "state \<Rightarrow> (bool \<times> error option) \<times> state"

text \<open>
  The poller's waits are recorded in the trace like sleeps. \<open>attempt\<close> is one run of
  the condition as the poller reads it: an error ends the poll, so does \<open>true\<close>, and
  \<open>None\<close> means the poll goes on.
\<close>

definition WaitUntil :: "time \<Rightarrow> state \<Rightarrow> state" where
  "WaitUntil t s = Sleep (t - now s) s"

definition attempt :: "conditionFunc \<Rightarrow> state \<Rightarrow> (error + unit) option \<times> state" where
  "attempt condition s =
     (case condition s of
        ((done, Some err), s1) \<Rightarrow> (Some (Inl err), s1)
      | ((True, None), s1) \<Rightarrow> (Some (Inr ()), s1)
      | ((False, None), s1) \<Rightarrow> (None, s1))"

partial_function (option) pollLoop ::
  "conditionFunc \<Rightarrow> duration \<Rightarrow> time option \<Rightarrow> state \<Rightarrow> ((error + unit) \<times> state) option" where
  "pollLoop condition interval deadline s =
     (case deadline of
        Some d \<Rightarrow>
          if d < now s + interval
          then (case attempt condition (WaitUntil d s) of
                  (Some r, s1) \<Rightarrow> Some (r, s1)
                | (None, s1) \<Rightarrow> Some (Inl ErrWaitTimeout, s1))
          else (case attempt condition (Sleep interval s) of
                  (Some r, s1) \<Rightarrow> Some (r, s1)
                | (None, s1) \<Rightarrow> pollLoop condition interval deadline s1)
      | None \<Rightarrow>
          (case attempt condition (Sleep interval s) of
                  (Some r, s1) \<Rightarrow> Some (r, s1)
                | (None, s1) \<Rightarrow> pollLoop condition interval deadline s1))"

definition pollImmediate ::
  "duration \<Rightarrow> duration \<Rightarrow> conditionFunc \<Rightarrow> state \<Rightarrow> ((error + unit) \<times> state) option" where
  "pollImmediate interval timeout condition s =
     (case attempt condition s of
        (Some r, s1) \<Rightarrow> Some (r, s1)
      | (None, s1) \<Rightarrow>
          pollLoop condition interval (if timeout = 0 then None else Some (now s1 + timeout)) s1)"

definition waitForPodRunning ::
  "cluster \<Rightarrow> string \<Rightarrow> string \<Rightarrow> duration \<Rightarrow> state \<Rightarrow> ((error + unit) \<times> state) option" where
  "waitForPodRunning cl namespace podName timeout s =
     pollImmediate (2 * Second) timeout (isPodRunning cl podName namespace) s"

fun waitForPodsLoop ::
  "cluster \<Rightarrow> ManifestOutput \<Rightarrow> Pod list \<Rightarrow> state \<Rightarrow> ((error + unit) \<times> state) option" where
  "waitForPodsLoop cl c [] s = Some (Inr (), s)"
| "waitForPodsLoop cl c (pod # pods) s =
     (case waitForPodRunning cl (GetNamespace c) (Name pod) (Timeout (GetReadyCheckData c)) s of
        None \<Rightarrow> None
      | Some (Inl err, s1) \<Rightarrow> Some (Inl err, s1)
      | Some (Inr u, s1) \<Rightarrow> waitForPodsLoop cl c pods s1)"

text \<open>
  The empty-match error. Its second argument is the timeout, as in the source, where the
  format string announces a selector.
\<close>

definition noPodsError :: "ManifestOutput \<Rightarrow> error" where
  "noPodsError c =
     Errorf ''no pods in %s with selector %s''
       [ArgString (GetNamespace c), ArgDuration (Timeout (GetReadyCheckData c))]"

definition WaitForPodBySelectorRunning ::
  "cluster \<Rightarrow> ManifestOutput \<Rightarrow> state \<Rightarrow> ((error + unit) \<times> state) option" where
  "WaitForPodBySelectorRunning cl c s =
     (case ListPods cl (GetNamespace c) (ReadinessProbeCheckSelector (GetReadyCheckData c)) s of
        (Inl err, s1) \<Rightarrow> Some (Inl err, s1)
      | (Inr podList, s1) \<Rightarrow>
          if length podList = 0 then Some (Inl (noPodsError c), s1)
          else waitForPodsLoop cl c podList s1)"

subsection \<open>The Container-Ready check\<close>

text \<open>
  \<open>context.WithTimeout\<close>: a context is represented by the instant from which its done
  channel is closed. With a timeout that is not positive the context is cancelled as it
  is made; otherwise the channel is closed at the deadline plus the timer's lag.
\<close>

definition WithTimeout :: "cluster \<Rightarrow> duration \<Rightarrow> state \<Rightarrow> time" where
  "WithTimeout cl timeout s =
     (if timeout \<le> 0 then now s
      else now s + timeout + int (timerLag cl (now s + timeout)))"

text \<open>
  The two nested loops that compute \<open>allReady\<close>, then the polling loop. The \<open>select\<close>
  takes the done channel of the context \<open>ctx\<close> whenever it is closed and the default
  branch otherwise.
\<close>

fun containersLoop :: "ContainerStatus list \<Rightarrow> bool \<Rightarrow> bool" where
  "containersLoop [] allReady = allReady"
| "containersLoop (c # cs) allReady = containersLoop cs (if \<not> Ready c then False else allReady)"

fun readyPodsLoop :: "Pod list \<Rightarrow> bool \<Rightarrow> bool" where
  "readyPodsLoop [] allReady = allReady"
| "readyPodsLoop (pod # pods) allReady =
     readyPodsLoop pods (containersLoop (ContainerStatuses pod) allReady)"

function waitContainersLoop ::
  "cluster \<Rightarrow> ManifestOutput \<Rightarrow> time \<Rightarrow> state \<Rightarrow> (error + unit) \<times> state" where
  "waitContainersLoop cl c ctx s =
     (if ctx \<le> now s
      then (Inl (ErrorNew ''timeout waiting container readiness probes''), s)
      else (case ListPods cl (GetNamespace c) (ReadinessProbeCheckSelector (GetReadyCheckData c)) s of
              (Inl err, s1) \<Rightarrow> (Inl err, s1)
            | (Inr podList, s1) \<Rightarrow>
                if length podList = 0 then (Inl (noPodsError c), s1)
                else if readyPodsLoop podList True then (Inr (), s1)
                else waitContainersLoop cl c ctx (Sleep ContainerStatePollInterval s1)))"
  by pat_completeness auto
termination
  by (relation "measure (\<lambda>(cl, c, ctx, s). nat (ctx - now s))")
     (auto simp: ListPods_def Sleep_def emit_def ContainerStatePollInterval_def Second_def)

definition WaitContainersReady :: "cluster \<Rightarrow> ManifestOutput \<Rightarrow> state \<Rightarrow> (error + unit) \<times> state" where
  "WaitContainersReady cl c s =
     waitContainersLoop cl c (WithTimeout cl (Timeout (GetReadyCheckData c)) s) s"

subsection \<open>The Log-Substring check\<close>

text \<open>\<open>strings.Contains\<close>, by trying every position.\<close>

fun HasPrefix :: "string \<Rightarrow> string \<Rightarrow> bool" where
  "HasPrefix s [] = True"
| "HasPrefix [] (p # ps) = False"
| "HasPrefix (x # xs) (p # ps) = (x = p \<and> HasPrefix xs ps)"

fun Contains :: "string \<Rightarrow> string \<Rightarrow> bool" where
  "Contains [] substr = (substr = [])"
| "Contains (x # xs) substr = (HasPrefix (x # xs) substr \<or> Contains xs substr)"

text \<open>
  One pass of the scanner over a stream either returns from the whole function or
  falls through with the running count \<open>logLinesFound\<close>. The stream was opened with the
  context, so a read that would still be waiting when the context is done is cut
  there: \<open>Scan\<close> returns false and the pass ends. \<open>Scan\<close> also returns false on a line
  that does not fit the scanner's buffer of \<open>MaxScanTokenSize\<close> bytes; the source never
  looks at the scanner's error. Nothing passes between a line being handed out and the
  \<open>select\<close> in the loop body, so the done branch of that \<open>select\<close>, which returns nil,
  is not taken by any run here.
\<close>

definition MaxScanTokenSize :: nat where
  "MaxScanTokenSize = 65536"

datatype outcome = Return "error + unit" | Next nat

fun scanLoop :: "time \<Rightarrow> string \<Rightarrow> (nat \<times> string) list \<Rightarrow> nat \<Rightarrow> state \<Rightarrow> outcome \<times> state" where
  "scanLoop ctx substr [] logLinesFound s = (Next logLinesFound, s)"
| "scanLoop ctx substr ((d, line) # rest) logLinesFound s =
     (if ctx \<le> now s + int d then (Next logLinesFound, s\<lparr>now := max (now s) ctx\<rparr>)
      else
        let s1 = s\<lparr>now := now s + int d\<rparr> in
        if MaxScanTokenSize \<le> length line then (Next logLinesFound, s1)
        else if ctx \<le> now s1 then (Return (Inr ()), s1)
        else scanLoop ctx substr rest
               (if Contains line substr then logLinesFound + 1 else logLinesFound) s1)"

text \<open>A request made with a context that is already done fails with the context's error.\<close>

definition Stream ::
  "cluster \<Rightarrow> string \<Rightarrow> string \<Rightarrow> string \<Rightarrow> time \<Rightarrow> state \<Rightarrow> (error + (nat \<times> string) list) \<times> state" where
  "Stream cl namespace podName container ctx s =
     (if ctx \<le> now s then Inl DeadlineExceeded
      else podsGetLogs cl (now s) namespace podName container,
      emit (GetLogsCall namespace podName container) s)"

fun logPodsLoop ::
  "cluster \<Rightarrow> ManifestOutput \<Rightarrow> time \<Rightarrow> nat \<Rightarrow> Pod list \<Rightarrow> nat \<Rightarrow> state \<Rightarrow> outcome \<times> state" where
  "logPodsLoop cl c ctx podCount [] logLinesFound s = (Next logLinesFound, s)"
| "logPodsLoop cl c ctx podCount (pod # pods) logLinesFound s =
     (case Stream cl (GetNamespace c) (Name pod) (Container (GetReadyCheckData c)) ctx s of
        (Inl err, s1) \<Rightarrow> (Return (Inl err), s1)
      | (Inr stream, s1) \<Rightarrow>
          (case scanLoop ctx (LogSubStr (GetReadyCheckData c)) stream logLinesFound s1 of
             (Return r, s2) \<Rightarrow> (Return r, s2)
           | (Next found, s2) \<Rightarrow>
               if found = podCount then (Return (Inr ()), s2)
               else logPodsLoop cl c ctx podCount pods found s2))"

text \<open>The clock never runs backwards inside a tick; the polling loop ends for that reason.\<close>

lemma scanLoop_now: "scanLoop ctx substr ls n s = (r, s') \<Longrightarrow> now s \<le> now s'"
proof (induction ls arbitrary: n s)
  case Nil
  then show ?case by simp
next
  case (Cons a ls)
  obtain d line where a: "a = (d, line)" by (cases a)
  let ?s1 = "s\<lparr>now := now s + int d\<rparr>"
  show ?case
  proof (cases "ctx \<le> now s + int d \<or> MaxScanTokenSize \<le> length line")
    case True
    with Cons.prems a show ?thesis by (auto simp: Let_def split: if_splits)
  next
    case False
    with Cons.prems a have
      "scanLoop ctx substr ls (if Contains line substr then n + 1 else n) ?s1 = (r, s')"
      by (simp add: Let_def)
    from Cons.IH[OF this] show ?thesis by simp
  qed
qed

lemma logPodsLoop_now: "logPodsLoop cl c ctx podCount pods n s = (r, s') \<Longrightarrow> now s \<le> now s'"
proof (induction pods arbitrary: n s)
  case Nil
  then show ?case by simp
next
  case (Cons pod pods)
  obtain r1 s1 where st: "Stream cl (GetNamespace c) (Name pod) (Container (GetReadyCheckData c)) ctx s = (r1, s1)"
    by (cases "Stream cl (GetNamespace c) (Name pod) (Container (GetReadyCheckData c)) ctx s")
  then have s1: "now s1 = now s" by (auto simp: Stream_def emit_def)
  show ?case
  proof (cases r1)
    case (Inl err)
    with Cons.prems st s1 show ?thesis by auto
  next
    case (Inr lines)
    obtain o2 s2 where sc: "scanLoop ctx (LogSubStr (GetReadyCheckData c)) lines n s1 = (o2, s2)"
      by (cases "scanLoop ctx (LogSubStr (GetReadyCheckData c)) lines n s1")
    from scanLoop_now[OF sc] s1 have le: "now s \<le> now s2" by simp
    show ?thesis
    proof (cases o2)
      case (Return x)
      with Cons.prems st Inr sc le show ?thesis by auto
    next
      case (Next found)
      show ?thesis
      proof (cases "found = podCount")
        case True
        with Cons.prems st Inr sc Next le show ?thesis by auto
      next
        case False
        with Cons.prems st Inr sc Next have "logPodsLoop cl c ctx podCount pods found s2 = (r, s')"
          by simp
        from Cons.IH[OF this] le show ?thesis by simp
      qed
    qed
  qed
qed

function waitLogLoop ::
  "cluster \<Rightarrow> ManifestOutput \<Rightarrow> Pod list \<Rightarrow> time \<Rightarrow> nat \<Rightarrow> state \<Rightarrow> (error + unit) \<times> state" where
  "waitLogLoop cl c pods ctx logLinesFound s =
     (if ctx \<le> now s then (Inl (ErrorNew ''timeout waiting for logs''), s)
      else (case logPodsLoop cl c ctx (length pods) pods logLinesFound (Sleep LogPollInterval s) of
              (Return r, s1) \<Rightarrow> (r, s1)
            | (Next found, s1) \<Rightarrow> waitLogLoop cl c pods ctx found s1))"
  by pat_completeness auto
termination
proof (relation "measure (\<lambda>(cl, c, pods, ctx, n, s). nat (ctx - now s))")
  show "wf (measure (\<lambda>(cl, c, pods, ctx, n, s). nat (ctx - now s)))" by simp
next
  fix cl c pods ctx logLinesFound s x y found
  assume a: "\<not> ctx \<le> now s"
    and b: "(x, y) = logPodsLoop cl c ctx (length pods) pods logLinesFound (Sleep LogPollInterval s)"
  from b have "now (Sleep LogPollInterval s) \<le> now y"
    using logPodsLoop_now[of cl c ctx "length pods" pods logLinesFound "Sleep LogPollInterval s" x y] by simp
  then have "now s < now y" by (simp add: Sleep_def emit_def LogPollInterval_def Second_def)
  with a show "((cl, c, pods, ctx, found, y), cl, c, pods, ctx, logLinesFound, s)
        \<in> measure (\<lambda>(cl, c, pods, ctx, n, s). nat (ctx - now s))" by simp
qed

definition WaitLogMessages :: "cluster \<Rightarrow> ManifestOutput \<Rightarrow> state \<Rightarrow> (error + unit) \<times> state" where
  "WaitLogMessages cl c s =
     (case ListPods cl (GetNamespace c) (Selector (GetReadyCheckData c)) s of
        (Inl err, s1) \<Rightarrow> (Inl err, s1)
      | (Inr pods, s1) \<Rightarrow>
          waitLogLoop cl c pods (WithTimeout cl (Timeout (GetReadyCheckData c)) s1) 0 s1)"

subsection \<open>The combined check\<close>

definition CheckReady :: "cluster \<Rightarrow> ManifestOutput \<Rightarrow> state \<Rightarrow> ((error + unit) \<times> state) option" where
  "CheckReady cl c s =
     (case WaitForPodBySelectorRunning cl c s of
        None \<Rightarrow> None
      | Some (Inl err, s1) \<Rightarrow> Some (Inl err, s1)
      | Some (Inr u, s1) \<Rightarrow> Some (WaitContainersReady cl c s1))"


declare waitContainersLoop.simps [simp del]
declare waitLogLoop.simps [simp del]

subsection \<open>Reading a trace\<close>

text \<open>
  Predicates on the effects a run added to the trace, used to state that polling stops
  at a terminal pod phase. A terminal observation is a get that saw the phase Failed or
  Succeeded; \<open>phaseError\<close> is the error \<open>isPodRunning\<close> returns for it.
\<close>

fun sawTerminal :: "event \<Rightarrow> bool" where
  "sawTerminal (GetPodCall namespace podName (Some ph)) = (ph = PodFailed \<or> ph = PodSucceeded)"
| "sawTerminal e = False"

definition phaseError :: "PodPhase \<Rightarrow> error" where
  "phaseError ph =
     (if ph = PodFailed then ErrorNew ''pod failed''
      else ErrorNew ''pod succeeded, are we expecting a Job type'')"

text \<open>
  \<open>stopsAtTerminal new r t\<close>: in the added effects \<open>new\<close> only the last one may be a
  terminal observation, and then it was made at the time \<open>t\<close> of the return and the
  result \<open>r\<close> is its error. \<open>pollSegment\<close> adds that a successful poll of one pod ends
  with the observation of that pod Running.
\<close>

definition stopsAtTerminal :: "(time \<times> event) list \<Rightarrow> (error + unit) \<Rightarrow> time \<Rightarrow> bool" where
  "stopsAtTerminal new r t' \<longleftrightarrow>
     list_all (\<lambda>e. \<not> sawTerminal (snd e)) (butlast new)
     \<and> (new = [] \<or> \<not> sawTerminal (snd (last new))
          \<or> (fst (last new) = t' \<and>
              (\<exists>ns name ph. snd (last new) = GetPodCall ns name (Some ph) \<and> r = Inl (phaseError ph))))"

definition pollSegment ::
  "string \<Rightarrow> string \<Rightarrow> (time \<times> event) list \<Rightarrow> (error + unit) \<Rightarrow> time \<Rightarrow> bool" where
  "pollSegment namespace podName new r t' \<longleftrightarrow>
     stopsAtTerminal new r t'
     \<and> (r \<noteq> Inr () \<or> (new \<noteq> [] \<and> last new = (t', GetPodCall namespace podName (Some PodRunning))))"

subsection \<open>Example clusters and hosts\<close>

definition noFiles :: "string \<rightharpoonup> string" where
  "noFiles = Map.empty"

definition startState :: "time \<Rightarrow> state" where
  "startState t = \<lparr>now = t, trace = [], files = noFiles\<rparr>"

definition gethPod :: "string \<Rightarrow> PodPhase \<Rightarrow> ContainerStatus list \<Rightarrow> Pod" where
  "gethPod name phase statuses =
     \<lparr>Name = name, Labels = [''app'' \<mapsto> ''geth''], Phase = phase, ContainerStatuses = statuses\<rparr>"

definition gethOutput :: "duration \<Rightarrow> ManifestOutput" where
  "gethOutput timeout =
     \<lparr>GetNamespace = ''chainlink-env-1'',
      GetReadyCheckData =
        \<lparr>ReadinessProbeCheckSelector = ''app=geth'', Selector = ''app=geth'',
         Container = ''geth'', LogSubStr = ''started'', Timeout = timeout\<rparr>\<rparr>"

text \<open>A component whose selectors match no pod of the example clusters.\<close>

definition strayOutput :: "duration \<Rightarrow> ManifestOutput" where
  "strayOutput timeout =
     \<lparr>GetNamespace = ''chainlink-env-1'',
      GetReadyCheckData =
        \<lparr>ReadinessProbeCheckSelector = ''app=mockserver'', Selector = ''app=mockserver'',
         Container = ''mockserver'', LogSubStr = ''started'', Timeout = timeout\<rparr>\<rparr>"

text \<open>
  A cluster at rest: two Running pods carry the label \<open>app=geth\<close> and report no container
  status; every other selector matches nothing; one namespace exists. The timer has no
  lag in the examples, but for the last one.
\<close>

definition quietCluster :: cluster where
  "quietCluster =
     \<lparr>podsList = (\<lambda>t namespace selector.
         if selector = ''app=geth''
         then Inr [gethPod ''geth-0'' PodRunning [], gethPod ''geth-1'' PodRunning []]
         else Inr []),
      podsGet = (\<lambda>t namespace name. Inr (gethPod name PodRunning [])),
      podsGetLogs = (\<lambda>t namespace name container. Inr []),
      namespacesGet = (\<lambda>t namespace.
         if namespace = ''chainlink-env-1'' then Inr () else Inl (ErrorNew ''namespaces not found'')),
      timerLag = (\<lambda>d. 0)\<rparr>"

text \<open>
  Clusters that change with time: the named pods carry \<open>app=geth\<close>, share one phase and
  one container whose readiness are functions of the time, and log fixed lines.
\<close>

definition gethCluster ::
  "string list \<Rightarrow> (time \<Rightarrow> PodPhase) \<Rightarrow> (time \<Rightarrow> bool) \<Rightarrow> (string \<Rightarrow> (nat \<times> string) list) \<Rightarrow> cluster" where
  "gethCluster names phaseAt readyAt logsOf =
     \<lparr>podsList = (\<lambda>t namespace selector.
         if selector = ''app=geth''
         then Inr (map (\<lambda>n. gethPod n (phaseAt t) [\<lparr>ContainerName = ''geth'', Ready = readyAt t\<rparr>]) names)
         else Inr []),
      podsGet = (\<lambda>t namespace name.
         Inr (gethPod name (phaseAt t) [\<lparr>ContainerName = ''geth'', Ready = readyAt t\<rparr>])),
      podsGetLogs = (\<lambda>t namespace name container. Inr (logsOf name)),
      namespacesGet = (\<lambda>t namespace. Inr ()),
      timerLag = (\<lambda>d. 0)\<rparr>"

definition failingCluster :: cluster where
  "failingCluster =
     gethCluster [''geth-0''] (\<lambda>t. if t < 2 * Second then PodPending else PodFailed)
       (\<lambda>t. False) (\<lambda>name. [])"

definition finishedCluster :: cluster where
  "finishedCluster =
     gethCluster [''geth-0''] (\<lambda>t. PodSucceeded) (\<lambda>t. False) (\<lambda>name. [])"

definition startingCluster :: cluster where
  "startingCluster =
     gethCluster [''geth-0''] (\<lambda>t. if t < 2 * Second then PodPending else PodRunning)
       (\<lambda>t. 4 * Second \<le> t) (\<lambda>name. [])"


definition neverReadyCluster :: cluster where
  "neverReadyCluster =
     gethCluster [''geth-0''] (\<lambda>t. PodRunning) (\<lambda>t. False) (\<lambda>name. [])"


text \<open>The only log line of the pod arrives three seconds after the stream is opened.\<close>

definition lateLogCluster :: cluster where
  "lateLogCluster =
     gethCluster [''geth-0''] (\<lambda>t. PodRunning) (\<lambda>t. True)
       (\<lambda>name. [(3000000000, ''still syncing'')])"

text \<open>Two pods; only the first one ever logs the word \<open>started\<close>, and it does so twice.\<close>

definition chattyCluster :: cluster where
  "chattyCluster =
     gethCluster [''geth-0'', ''geth-1''] (\<lambda>t. PodRunning) (\<lambda>t. True)
       (\<lambda>name. if name = ''geth-0'' then [(0, ''p2p started''), (0, ''rpc started'')]
                else [(0, ''waiting for peers'')])"

definition loneChattyCluster :: cluster where
  "loneChattyCluster =
     gethCluster [''geth-0''] (\<lambda>t. PodRunning) (\<lambda>t. True)
       (\<lambda>name. [(0, ''p2p started''), (0, ''rpc started'')])"

text \<open>A host where everything works, and one whose working directory cannot be written.\<close>

definition plainHost :: host where
  "plainHost = \<lparr>writeFileError = (\<lambda>name data. None), execCmd = (\<lambda>fs cmd. None)\<rparr>"

definition readOnlyHost :: host where
  "readOnlyHost =
     \<lparr>writeFileError = (\<lambda>name data. Some (ErrorNew ''read-only file system'')),
      execCmd = (\<lambda>fs cmd. None)\<rparr>"

text \<open>The definitions a run on an example unfolds.\<close>

lemmas run_simps =
  CheckReady_def WaitForPodBySelectorRunning_def WaitContainersReady_def WaitLogMessages_def
  ListPods_def waitForPodRunning_def pollImmediate_def pollLoop.simps attempt_def
  isPodRunning_def waitContainersLoop.simps waitLogLoop.simps Stream_def emit_def Sleep_def
  WithTimeout_def MaxScanTokenSize_def
  WaitUntil_def noPodsError_def DeadlineExceeded_def ErrWaitTimeout_def
  ContainerStatePollInterval_def LogPollInterval_def Second_def
  gethCluster_def gethPod_def gethOutput_def strayOutput_def startState_def

section \<open>Properties\<close>

subsection \<open>Labels, namespaces and manifests\<close>

lemma uniqueLabelsLoop_empty:
  "uniqueLabelsLoop ps acc Map.empty = acc @ map (\<lambda>p. label p ''app'') ps"
  by (induction ps arbitrary: acc) (simp_all add: Let_def)

text \<open>
  C9. When the pod list for a namespace and selector is returned, \<open>UniqueLabels\<close> answers
  with the \<open>app\<close> label of every listed pod, in the order of the list: the i-th entry
  is the label of the i-th pod. The membership map is never stored into, so no pod is
  skipped and equal labels appear as often as there are pods carrying them.
\<close>

theorem UniqueLabels_keeps_duplicates:
  "podsList cl (now s) namespace selector = Inr podList \<Longrightarrow>
   fst (UniqueLabels cl namespace selector s) = Inr (map (\<lambda>p. label p ''app'') podList)"
  by (simp add: UniqueLabels_def ListPods_def uniqueLabelsLoop_empty)

theorem UniqueLabels_keeps_duplicates_witness:
  "podsList quietCluster (now (startState 0)) ''chainlink-env-1'' ''app=geth''
     = Inr [gethPod ''geth-0'' PodRunning [], gethPod ''geth-1'' PodRunning []]
   \<and> fst (UniqueLabels quietCluster ''chainlink-env-1'' ''app=geth'' (startState 0))
     = Inr [''geth'', ''geth'']"
proof -
  have h: "podsList quietCluster (now (startState 0)) ''chainlink-env-1'' ''app=geth''
     = Inr [gethPod ''geth-0'' PodRunning [], gethPod ''geth-1'' PodRunning []]"
    by (simp add: quietCluster_def)
  from UniqueLabels_keeps_duplicates[OF h] h show ?thesis
    by (simp add: label_def gethPod_def)
qed

text \<open>
  C7. The namespace probe answers false whenever the retrieval returns an error, whatever
  the error is, and answers true exactly when the retrieval succeeds. Its result is a
  plain boolean: there is no error for it to raise.
\<close>

theorem NamespaceExists_iff_get_succeeds:
  "(\<forall>err. namespacesGet cl (now s) namespace = Inl err \<longrightarrow>
      fst (NamespaceExists cl namespace s) = False)
   \<and> (fst (NamespaceExists cl namespace s) = True
        \<longleftrightarrow> (\<exists>u. namespacesGet cl (now s) namespace = Inr u))"
  by (cases "namespacesGet cl (now s) namespace") (simp_all add: NamespaceExists_def)

theorem NamespaceExists_iff_get_succeeds_witness:
  "namespacesGet quietCluster (now (startState 0)) ''gone'' = Inl (ErrorNew ''namespaces not found'')
   \<and> fst (NamespaceExists quietCluster ''gone'' (startState 0)) = False
   \<and> namespacesGet quietCluster (now (startState 0)) ''chainlink-env-1'' = Inr ()
   \<and> fst (NamespaceExists quietCluster ''chainlink-env-1'' (startState 0)) = True"
proof -
  have a: "namespacesGet quietCluster (now (startState 0)) ''gone''
             = Inl (ErrorNew ''namespaces not found'')"
    by (simp add: quietCluster_def)
  have b: "namespacesGet quietCluster (now (startState 0)) ''chainlink-env-1'' = Inr ()"
    by (simp add: quietCluster_def)
  from NamespaceExists_iff_get_succeeds[of quietCluster "startState 0" "''gone''"] a
  have c: "fst (NamespaceExists quietCluster ''gone'' (startState 0)) = False" by blast
  from NamespaceExists_iff_get_succeeds[of quietCluster "startState 0" "''chainlink-env-1''"] b
  have d: "fst (NamespaceExists quietCluster ''chainlink-env-1'' (startState 0)) = True" by blast
  from a b c d show ?thesis by blast
qed

text \<open>
  C8. Apply and Create first write the whole manifest to the one fixed file name,
  replacing what the file held, and only then run the external command: the trace shows
  the write before the command, and the command runs against a file system in which
  the file holds exactly the manifest. When the write fails its error is returned and
  the command is not run: the write is the only effect.
\<close>

theorem manifest_written_before_command:
  "(writeFileError h TempDebugManifest manifest = None \<longrightarrow>
      trace (snd (Apply h manifest s)) =
        trace s @ [(now s, WriteFileCall TempDebugManifest manifest True),
                   (now s, ExecCmdCall (''kubectl apply -f '' @ TempDebugManifest))]
      \<and> fst (Apply h manifest s) =
          (case execCmd h ((files s)(TempDebugManifest \<mapsto> manifest))
                  (''kubectl apply -f '' @ TempDebugManifest) of
             Some err \<Rightarrow> Inl err | None \<Rightarrow> Inr ())
      \<and> trace (snd (Create h manifest s)) =
        trace s @ [(now s, WriteFileCall TempDebugManifest manifest True),
                   (now s, ExecCmdCall (''kubectl create -f '' @ TempDebugManifest))]
      \<and> fst (Create h manifest s) =
          (case execCmd h ((files s)(TempDebugManifest \<mapsto> manifest))
                  (''kubectl create -f '' @ TempDebugManifest) of
             Some err \<Rightarrow> Inl err | None \<Rightarrow> Inr ()))
   \<and> (\<forall>err. writeFileError h TempDebugManifest manifest = Some err \<longrightarrow>
        Apply h manifest s = (Inl err, emit (WriteFileCall TempDebugManifest manifest False) s)
      \<and> Create h manifest s = (Inl err, emit (WriteFileCall TempDebugManifest manifest False) s))"
  by (auto simp: Apply_def Create_def WriteFile_def ExecCmd_def emit_def split: option.splits)

theorem manifest_written_before_command_witness:
  "writeFileError plainHost TempDebugManifest ''kind: Pod'' = None
   \<and> trace (snd (Apply plainHost ''kind: Pod'' (startState 0))) =
        [(0, WriteFileCall ''tmp-manifest.yaml'' ''kind: Pod'' True),
         (0, ExecCmdCall ''kubectl apply -f tmp-manifest.yaml'')]
   \<and> trace (snd (Create plainHost ''kind: Pod'' (startState 0))) =
        [(0, WriteFileCall ''tmp-manifest.yaml'' ''kind: Pod'' True),
         (0, ExecCmdCall ''kubectl create -f tmp-manifest.yaml'')]
   \<and> writeFileError readOnlyHost TempDebugManifest ''kind: Pod''
        = Some (ErrorNew ''read-only file system'')
   \<and> trace (snd (Apply readOnlyHost ''kind: Pod'' (startState 0))) =
        [(0, WriteFileCall ''tmp-manifest.yaml'' ''kind: Pod'' False)]
   \<and> fst (Apply readOnlyHost ''kind: Pod'' (startState 0)) = Inl (ErrorNew ''read-only file system'')"
proof -
  have a: "writeFileError plainHost TempDebugManifest ''kind: Pod'' = None"
    by (simp add: plainHost_def)
  have b: "writeFileError readOnlyHost TempDebugManifest ''kind: Pod''
             = Some (ErrorNew ''read-only file system'')"
    by (simp add: readOnlyHost_def)
  from manifest_written_before_command[of plainHost "''kind: Pod''" "startState 0"] a
  have c: "trace (snd (Apply plainHost ''kind: Pod'' (startState 0))) =
        [(0, WriteFileCall ''tmp-manifest.yaml'' ''kind: Pod'' True),
         (0, ExecCmdCall ''kubectl apply -f tmp-manifest.yaml'')]"
    and d: "trace (snd (Create plainHost ''kind: Pod'' (startState 0))) =
        [(0, WriteFileCall ''tmp-manifest.yaml'' ''kind: Pod'' True),
         (0, ExecCmdCall ''kubectl create -f tmp-manifest.yaml'')]"
    by (simp_all add: startState_def TempDebugManifest_def)
  from manifest_written_before_command[of readOnlyHost "''kind: Pod''" "startState 0"] b
  have e: "Apply readOnlyHost ''kind: Pod'' (startState 0) =
      (Inl (ErrorNew ''read-only file system''),
       emit (WriteFileCall TempDebugManifest ''kind: Pod'' False) (startState 0))"
    by blast
  from a b c d e show ?thesis
    by (simp add: emit_def startState_def TempDebugManifest_def)
qed

subsection \<open>The Pod-Running check\<close>

text \<open>
  Every step of the poll adds its effects to the trace; a terminal observation can only
  be the last of them.
\<close>

lemma attempt_isPodRunning:
  "attempt (isPodRunning cl podName namespace) s = (ro, s1) \<Longrightarrow>
   now s1 = now s \<and>
   (\<exists>obs. trace s1 = trace s @ [(now s, GetPodCall namespace podName obs)]
      \<and> (ro = None \<longrightarrow> \<not> sawTerminal (GetPodCall namespace podName obs))
      \<and> (\<forall>r. ro = Some r \<longrightarrow> pollSegment namespace podName [(now s, GetPodCall namespace podName obs)] r (now s)))"
  by (cases "podsGet cl (now s) namespace podName"; cases "Phase (projr (podsGet cl (now s) namespace podName))")
     (auto simp: attempt_def isPodRunning_def emit_def pollSegment_def stopsAtTerminal_def
             phaseError_def)

lemma pollSegment_prepend:
  "list_all (\<lambda>e. \<not> sawTerminal (snd e)) pre \<Longrightarrow> new \<noteq> [] \<Longrightarrow>
   pollSegment ns name new r t \<Longrightarrow> pollSegment ns name (pre @ new) r t"
  by (auto simp: pollSegment_def stopsAtTerminal_def butlast_append)

lemma pollSegment_error:
  "list_all (\<lambda>e. \<not> sawTerminal (snd e)) new \<Longrightarrow> pollSegment ns name new (Inl err) t"
  by (cases new rule: rev_cases) (auto simp: pollSegment_def stopsAtTerminal_def)

lemma Sleep_state:
  "now (Sleep d s) = now s + max 0 d" "trace (Sleep d s) = trace s @ [(now s, SleepCall d)]"
  by (simp_all add: Sleep_def emit_def)

lemma pollTick_segment:
  assumes att: "attempt (isPodRunning cl podName namespace) (Sleep d s) = (ro, s1)"
  shows "\<exists>g. trace s1 = trace s @ [(now s, SleepCall d), g] \<and> now s1 = now (Sleep d s)
           \<and> (ro = None \<longrightarrow> \<not> sawTerminal (snd g))
           \<and> (\<forall>r. ro = Some r \<longrightarrow> pollSegment namespace podName [(now s, SleepCall d), g] r (now s1))"
proof -
  from attempt_isPodRunning[OF att] obtain obs where
    n: "now s1 = now (Sleep d s)" and
    t: "trace s1 = trace (Sleep d s) @ [(now (Sleep d s), GetPodCall namespace podName obs)]" and
    q: "ro = None \<longrightarrow> \<not> sawTerminal (GetPodCall namespace podName obs)" and
    p: "\<forall>r. ro = Some r \<longrightarrow>
          pollSegment namespace podName [(now (Sleep d s), GetPodCall namespace podName obs)] r (now (Sleep d s))"
    by blast
  let ?g = "(now (Sleep d s), GetPodCall namespace podName obs)"
  have "\<forall>r. ro = Some r \<longrightarrow> pollSegment namespace podName [(now s, SleepCall d), ?g] r (now s1)"
    using p n pollSegment_prepend[of "[(now s, SleepCall d)]" "[?g]" namespace podName]
    by auto
  with n t q show ?thesis by (auto simp: Sleep_state)
qed

lemma pollLoop_segment:
  assumes run: "pollLoop (isPodRunning cl podName namespace) interval deadline s = Some res"
  shows "\<exists>new. new \<noteq> [] \<and> trace (snd res) = trace s @ new
         \<and> pollSegment namespace podName new (fst res) (now (snd res))"
proof (induction "isPodRunning cl podName namespace" interval deadline s res rule: pollLoop.raw_induct)
  case (1 pollLoop' interval deadline s res)
  note IH = "1.hyps"(1) and body = "1.hyps"(2)
  let ?final = "\<exists>d. deadline = Some d \<and> d < now s + interval"
  show ?case
  proof (cases ?final)
    case True
    then obtain d where d: "deadline = Some d" "d < now s + interval" by blast
    obtain ro s1 where att: "attempt (isPodRunning cl podName namespace) (WaitUntil d s) = (ro, s1)"
      by (cases "attempt (isPodRunning cl podName namespace) (WaitUntil d s)")
    from pollTick_segment[OF att[unfolded WaitUntil_def]] obtain g where
      t: "trace s1 = trace s @ [(now s, SleepCall (d - now s)), g]" and
      q: "ro = None \<longrightarrow> \<not> sawTerminal (snd g)" and
      p: "\<forall>r. ro = Some r \<longrightarrow> pollSegment namespace podName [(now s, SleepCall (d - now s)), g] r (now s1)"
      by blast
    show ?thesis
    proof (cases ro)
      case None
      with body d att have res: "res = (Inl ErrWaitTimeout, s1)" by simp
      from q None have "pollSegment namespace podName [(now s, SleepCall (d - now s)), g] (Inl ErrWaitTimeout) (now s1)"
        by (intro pollSegment_error) simp
      with res t show ?thesis
        by (intro exI[of _ "[(now s, SleepCall (d - now s)), g]"]) simp
    next
      case (Some r)
      with body d att have res: "res = (r, s1)" by simp
      with p Some t show ?thesis
        by (intro exI[of _ "[(now s, SleepCall (d - now s)), g]"]) simp
    qed
  next
    case False
    obtain ro s1 where att: "attempt (isPodRunning cl podName namespace) (Sleep interval s) = (ro, s1)"
      by (cases "attempt (isPodRunning cl podName namespace) (Sleep interval s)")
    from pollTick_segment[OF att] obtain g where
      t: "trace s1 = trace s @ [(now s, SleepCall interval), g]" and
      q: "ro = None \<longrightarrow> \<not> sawTerminal (snd g)" and
      p: "\<forall>r. ro = Some r \<longrightarrow> pollSegment namespace podName [(now s, SleepCall interval), g] r (now s1)"
      by blast
    show ?thesis
    proof (cases ro)
      case None
      with body False att have "pollLoop' (isPodRunning cl podName namespace) interval deadline s1 = Some res"
        by (cases deadline) (simp_all split: if_splits)
      from IH[OF this] obtain new where
        n: "new \<noteq> []" "trace (snd res) = trace s1 @ new"
           "pollSegment namespace podName new (fst res) (now (snd res))" by blast
      from q None n have "pollSegment namespace podName ([(now s, SleepCall interval), g] @ new) (fst res) (now (snd res))"
        by (intro pollSegment_prepend) simp_all
      with n t show ?thesis
        by (intro exI[of _ "[(now s, SleepCall interval), g] @ new"]) simp
    next
      case (Some r)
      with body False att have res: "res = (r, s1)"
        by (cases deadline) (simp_all split: if_splits)
      with p Some t show ?thesis
        by (intro exI[of _ "[(now s, SleepCall interval), g]"]) simp
    qed
  qed
qed (fact run)

lemma pollImmediate_segment:
  assumes "pollImmediate interval timeout (isPodRunning cl podName namespace) s = Some res"
  shows "\<exists>new. new \<noteq> [] \<and> trace (snd res) = trace s @ new
         \<and> pollSegment namespace podName new (fst res) (now (snd res))"
proof -
  obtain ro s1 where att: "attempt (isPodRunning cl podName namespace) s = (ro, s1)"
    by (cases "attempt (isPodRunning cl podName namespace) s")
  from attempt_isPodRunning[OF att] obtain obs where
    n: "now s1 = now s" and
    t: "trace s1 = trace s @ [(now s, GetPodCall namespace podName obs)]" and
    q: "ro = None \<longrightarrow> \<not> sawTerminal (GetPodCall namespace podName obs)" and
    p: "\<forall>r. ro = Some r \<longrightarrow>
          pollSegment namespace podName [(now s, GetPodCall namespace podName obs)] r (now s)"
    by blast
  show ?thesis
  proof (cases ro)
    case None
    with assms att have "pollLoop (isPodRunning cl podName namespace) interval
        (if timeout = 0 then None else Some (now s1 + timeout)) s1 = Some res"
      by (simp add: pollImmediate_def)
    from pollLoop_segment[OF this] obtain new where
      m: "new \<noteq> []" "trace (snd res) = trace s1 @ new"
         "pollSegment namespace podName new (fst res) (now (snd res))" by blast
    from q None m have "pollSegment namespace podName ([(now s, GetPodCall namespace podName obs)] @ new)
        (fst res) (now (snd res))"
      by (intro pollSegment_prepend) simp_all
    with m t show ?thesis by auto
  next
    case (Some r)
    with assms att have "res = (r, s1)" by (simp add: pollImmediate_def)
    with p Some t n show ?thesis by auto
  qed
qed


lemma pollSegment_stops: "pollSegment ns name new r t \<Longrightarrow> stopsAtTerminal new r t"
  by (simp add: pollSegment_def)

lemma stopsAtTerminal_quiet:
  "stopsAtTerminal new (Inr ()) t \<Longrightarrow> list_all (\<lambda>e. \<not> sawTerminal (snd e)) new"
  by (cases new rule: rev_cases) (auto simp: stopsAtTerminal_def)

lemma pollSegment_running:
  "pollSegment ns name new (Inr ()) t \<Longrightarrow> (t, GetPodCall ns name (Some PodRunning)) \<in> set new"
  by (cases new rule: rev_cases) (auto simp: pollSegment_def)

lemma stopsAtTerminal_prepend:
  "list_all (\<lambda>e. \<not> sawTerminal (snd e)) pre \<Longrightarrow> stopsAtTerminal new r t \<Longrightarrow>
   stopsAtTerminal (pre @ new) r t"
  by (cases pre rule: rev_cases) (auto simp: stopsAtTerminal_def butlast_append)

lemma stopsAtTerminal_split:
  assumes "stopsAtTerminal new r t'"
    and "new = before @ (t, GetPodCall ns name (Some ph)) # after"
    and "ph = PodFailed \<or> ph = PodSucceeded"
  shows "after = [] \<and> t = t' \<and> r = Inl (phaseError ph)"
proof -
  have "after = []"
  proof (rule ccontr)
    assume "after \<noteq> []"
    with assms(2) have "(t, GetPodCall ns name (Some ph)) \<in> set (butlast new)"
      by (simp add: butlast_append)
    with assms(1,3) show False by (auto simp: stopsAtTerminal_def list_all_iff)
  qed
  with assms show ?thesis by (auto simp: stopsAtTerminal_def)
qed

lemma waitForPodsLoop_segment:
  "waitForPodsLoop cl c pods s = Some res \<Longrightarrow>
   \<exists>new. trace (snd res) = trace s @ new \<and> stopsAtTerminal new (fst res) (now (snd res))
     \<and> (fst res = Inr () \<longrightarrow>
          (\<forall>pod \<in> set pods. \<exists>t. (t, GetPodCall (GetNamespace c) (Name pod) (Some PodRunning)) \<in> set new))"
proof (induction pods arbitrary: s)
  case Nil
  then show ?case by (auto simp: stopsAtTerminal_def)
next
  case (Cons pod pods)
  let ?w = "waitForPodRunning cl (GetNamespace c) (Name pod) (Timeout (GetReadyCheckData c)) s"
  from Cons.prems obtain r1 s1 where w: "?w = Some (r1, s1)"
    by (cases ?w) auto
  from pollImmediate_segment[OF w[unfolded waitForPodRunning_def]] obtain new1 where
    n1: "trace s1 = trace s @ new1" "pollSegment (GetNamespace c) (Name pod) new1 r1 (now s1)"
    by auto
  show ?case
  proof (cases r1)
    case (Inl err)
    with Cons.prems w have "res = (Inl err, s1)" by simp
    with n1 Inl show ?thesis by (auto dest: pollSegment_stops)
  next
    case (Inr u)
    with Cons.prems w have "waitForPodsLoop cl c pods s1 = Some res" by simp
    from Cons.IH[OF this] obtain new2 where
      n2: "trace (snd res) = trace s1 @ new2" "stopsAtTerminal new2 (fst res) (now (snd res))"
          "fst res = Inr () \<longrightarrow>
             (\<forall>pod \<in> set pods. \<exists>t. (t, GetPodCall (GetNamespace c) (Name pod) (Some PodRunning)) \<in> set new2)"
      by blast
    from n1 Inr have q: "list_all (\<lambda>e. \<not> sawTerminal (snd e)) new1"
      and ru: "(now s1, GetPodCall (GetNamespace c) (Name pod) (Some PodRunning)) \<in> set new1"
      by (auto dest: pollSegment_stops stopsAtTerminal_quiet pollSegment_running)
    have a: "trace (snd res) = trace s @ (new1 @ new2)" using n1 n2 by simp
    have b: "stopsAtTerminal (new1 @ new2) (fst res) (now (snd res))"
      using q n2 by (intro stopsAtTerminal_prepend)
    have d: "fst res = Inr () \<longrightarrow>
          (\<forall>p \<in> set (pod # pods). \<exists>t. (t, GetPodCall (GetNamespace c) (Name p) (Some PodRunning)) \<in> set (new1 @ new2))"
      using ru n2(3) by auto
    from a b d show ?thesis by blast
  qed
qed

lemma WaitForPodBySelectorRunning_segment:
  assumes "WaitForPodBySelectorRunning cl c s = Some res"
  shows "\<exists>new. trace (snd res) = trace s @ new \<and> stopsAtTerminal new (fst res) (now (snd res))
     \<and> (fst res = Inr () \<longrightarrow>
          (\<exists>podList. podsList cl (now s) (GetNamespace c)
                        (ReadinessProbeCheckSelector (GetReadyCheckData c)) = Inr podList
             \<and> podList \<noteq> []
             \<and> (\<forall>pod \<in> set podList.
                   \<exists>t. (t, GetPodCall (GetNamespace c) (Name pod) (Some PodRunning)) \<in> set new)))"
proof -
  let ?ns = "GetNamespace c" and ?sel = "ReadinessProbeCheckSelector (GetReadyCheckData c)"
  let ?s1 = "emit (ListPodsCall ?ns ?sel) s"
  let ?ev = "(now s, ListPodsCall ?ns ?sel)"
  have t1: "trace ?s1 = trace s @ [?ev]" by (simp add: emit_def)
  show ?thesis
  proof (cases "podsList cl (now s) ?ns ?sel")
    case (Inl err)
    with assms have "res = (Inl err, ?s1)"
      by (simp add: WaitForPodBySelectorRunning_def ListPods_def)
    with t1 show ?thesis by (auto simp: stopsAtTerminal_def)
  next
    case (Inr podList)
    show ?thesis
    proof (cases "podList = []")
      case True
      with assms Inr have "res = (Inl (noPodsError c), ?s1)"
        by (simp add: WaitForPodBySelectorRunning_def ListPods_def)
      with t1 show ?thesis by (auto simp: stopsAtTerminal_def)
    next
      case False
      with assms Inr have "waitForPodsLoop cl c podList ?s1 = Some res"
        by (simp add: WaitForPodBySelectorRunning_def ListPods_def)
      from waitForPodsLoop_segment[OF this] obtain new where
        n: "trace (snd res) = trace ?s1 @ new" "stopsAtTerminal new (fst res) (now (snd res))"
           "fst res = Inr () \<longrightarrow>
              (\<forall>pod \<in> set podList. \<exists>t. (t, GetPodCall ?ns (Name pod) (Some PodRunning)) \<in> set new)"
        by blast
      have a: "trace (snd res) = trace s @ ([?ev] @ new)" using n t1 by simp
      have b: "stopsAtTerminal ([?ev] @ new) (fst res) (now (snd res))"
        using n(2) by (intro stopsAtTerminal_prepend) simp_all
      have d: "fst res = Inr () \<longrightarrow>
          (\<exists>podList. podsList cl (now s) ?ns ?sel = Inr podList \<and> podList \<noteq> []
             \<and> (\<forall>pod \<in> set podList. \<exists>t. (t, GetPodCall ?ns (Name pod) (Some PodRunning)) \<in> set ([?ev] @ new)))"
        using n(3) Inr False by auto
      from a b d show ?thesis by blast
    qed
  qed
qed

lemma pollLoop_returns:
  assumes "0 < interval"
  shows "\<exists>res. pollLoop (isPodRunning cl podName namespace) interval (Some d) s = Some res"
proof (induction "nat (d + interval - now s)" arbitrary: s rule: less_induct)
  case less
  show ?case
  proof (cases "d < now s + interval")
    case True
    then show ?thesis
      by (subst pollLoop.simps) (simp split: prod.splits option.splits)
  next
    case False
    obtain ro s1 where att: "attempt (isPodRunning cl podName namespace) (Sleep interval s) = (ro, s1)"
      by (cases "attempt (isPodRunning cl podName namespace) (Sleep interval s)")
    from attempt_isPodRunning[OF att] assms have n: "now s1 = now s + interval"
      by (simp add: Sleep_state)
    show ?thesis
    proof (cases ro)
      case None
      from n False assms have "nat (d + interval - now s1) < nat (d + interval - now s)" by simp
      from less[OF this] obtain res where
        "pollLoop (isPodRunning cl podName namespace) interval (Some d) s1 = Some res" by blast
      with False att None show ?thesis by (subst pollLoop.simps) simp
    next
      case (Some r)
      with False att show ?thesis by (subst pollLoop.simps) simp
    qed
  qed
qed

lemma waitForPodRunning_returns:
  "timeout \<noteq> 0 \<Longrightarrow> \<exists>res. waitForPodRunning cl namespace podName timeout s = Some res"
  using pollLoop_returns[of "2 * Second" cl podName namespace]
  by (auto simp: waitForPodRunning_def pollImmediate_def Second_def split: prod.splits option.splits)

lemma waitForPodsLoop_returns:
  "Timeout (GetReadyCheckData c) \<noteq> 0 \<Longrightarrow> \<exists>res. waitForPodsLoop cl c pods s = Some res"
proof (induction pods arbitrary: s)
  case Nil
  then show ?case by simp
next
  case (Cons pod pods)
  from waitForPodRunning_returns[OF Cons.prems] obtain r1 s1 where
    "waitForPodRunning cl (GetNamespace c) (Name pod) (Timeout (GetReadyCheckData c)) s = Some (r1, s1)"
    by (metis surj_pair)
  with Cons.IH[OF Cons.prems, of s1] show ?case by (cases r1) auto
qed

lemma WaitForPodBySelectorRunning_returns:
  "Timeout (GetReadyCheckData c) \<noteq> 0 \<Longrightarrow> \<exists>res. WaitForPodBySelectorRunning cl c s = Some res"
  using waitForPodsLoop_returns[of c cl]
  by (auto simp: WaitForPodBySelectorRunning_def ListPods_def split: sum.splits)

text \<open>
  C4. The Pod-Running check returns whenever the timeout is not zero (the invariant of
  ReadyCheckData makes it positive). Whenever it returns, an observation of a pod in
  phase Failed is the last effect of the check: no get, sleep or tick follows it, the
  check returns at the time of that observation, and its result is the error
  \<open>pod failed\<close>. The same holds for the phase Succeeded, with its own error: it is
  neither retried nor taken as ready.
\<close>

theorem terminal_phase_stops_polling:
  "(Timeout (GetReadyCheckData c) \<noteq> 0 \<longrightarrow> (\<exists>res. WaitForPodBySelectorRunning cl c s = Some res))
   \<and> (\<forall>r s' before t ns name after.
        WaitForPodBySelectorRunning cl c s = Some (r, s')
        \<and> trace s' = trace s @ before @ (t, GetPodCall ns name (Some PodFailed)) # after
        \<longrightarrow> after = [] \<and> now s' = t \<and> r = Inl (ErrorNew ''pod failed''))
   \<and> (\<forall>r s' before t ns name after.
        WaitForPodBySelectorRunning cl c s = Some (r, s')
        \<and> trace s' = trace s @ before @ (t, GetPodCall ns name (Some PodSucceeded)) # after
        \<longrightarrow> after = [] \<and> now s' = t
            \<and> r = Inl (ErrorNew ''pod succeeded, are we expecting a Job type''))"
proof (intro conjI allI impI)
  assume "Timeout (GetReadyCheckData c) \<noteq> 0"
  then show "\<exists>res. WaitForPodBySelectorRunning cl c s = Some res"
    by (rule WaitForPodBySelectorRunning_returns)
next
  fix r s' before t ns name after
  assume a: "WaitForPodBySelectorRunning cl c s = Some (r, s')
        \<and> trace s' = trace s @ before @ (t, GetPodCall ns name (Some PodFailed)) # after"
  from WaitForPodBySelectorRunning_segment[of cl c s "(r, s')"] a obtain new where
    n: "trace s' = trace s @ new" "stopsAtTerminal new r (now s')" by auto
  with a have "new = before @ (t, GetPodCall ns name (Some PodFailed)) # after" by simp
  from stopsAtTerminal_split[OF n(2) this]
  have "after = [] \<and> t = now s' \<and> r = Inl (phaseError PodFailed)" by simp
  then show "after = []" "now s' = t" "r = Inl (ErrorNew ''pod failed'')"
    by (simp_all add: phaseError_def)
next
  fix r s' before t ns name after
  assume a: "WaitForPodBySelectorRunning cl c s = Some (r, s')
        \<and> trace s' = trace s @ before @ (t, GetPodCall ns name (Some PodSucceeded)) # after"
  from WaitForPodBySelectorRunning_segment[of cl c s "(r, s')"] a obtain new where
    n: "trace s' = trace s @ new" "stopsAtTerminal new r (now s')" by auto
  with a have "new = before @ (t, GetPodCall ns name (Some PodSucceeded)) # after" by simp
  from stopsAtTerminal_split[OF n(2) this]
  have "after = [] \<and> t = now s' \<and> r = Inl (phaseError PodSucceeded)" by simp
  then show "after = []" "now s' = t"
    "r = Inl (ErrorNew ''pod succeeded, are we expecting a Job type'')"
    by (simp_all add: phaseError_def)
qed


lemma failingCluster_run:
  "WaitForPodBySelectorRunning failingCluster (gethOutput (10 * Second)) (startState 0) =
     Some (Inl (ErrorNew ''pod failed''),
       \<lparr>now = 2 * Second,
        trace = [(0, ListPodsCall ''chainlink-env-1'' ''app=geth''),
                 (0, GetPodCall ''chainlink-env-1'' ''geth-0'' (Some PodPending)),
                 (0, SleepCall (2 * Second)),
                 (2 * Second, GetPodCall ''chainlink-env-1'' ''geth-0'' (Some PodFailed))],
        files = noFiles\<rparr>)"
  by (simp add: run_simps failingCluster_def)

lemma finishedCluster_run:
  "WaitForPodBySelectorRunning finishedCluster (gethOutput (10 * Second)) (startState 0) =
     Some (Inl (ErrorNew ''pod succeeded, are we expecting a Job type''),
       \<lparr>now = 0,
        trace = [(0, ListPodsCall ''chainlink-env-1'' ''app=geth''),
                 (0, GetPodCall ''chainlink-env-1'' ''geth-0'' (Some PodSucceeded))],
        files = noFiles\<rparr>)"
  by (simp add: run_simps finishedCluster_def)

theorem terminal_phase_stops_polling_witness:
  "Timeout (GetReadyCheckData (gethOutput (10 * Second))) \<noteq> 0
   \<and> WaitForPodBySelectorRunning failingCluster (gethOutput (10 * Second)) (startState 0) =
       Some (Inl (ErrorNew ''pod failed''),
         \<lparr>now = 2 * Second,
          trace = trace (startState 0) @
                  [(0, ListPodsCall ''chainlink-env-1'' ''app=geth''),
                   (0, GetPodCall ''chainlink-env-1'' ''geth-0'' (Some PodPending)),
                   (0, SleepCall (2 * Second))] @
                  (2 * Second, GetPodCall ''chainlink-env-1'' ''geth-0'' (Some PodFailed)) # [],
          files = noFiles\<rparr>)
   \<and> WaitForPodBySelectorRunning finishedCluster (gethOutput (10 * Second)) (startState 0) =
       Some (Inl (ErrorNew ''pod succeeded, are we expecting a Job type''),
         \<lparr>now = 0,
          trace = trace (startState 0) @
                  [(0, ListPodsCall ''chainlink-env-1'' ''app=geth'')] @
                  (0, GetPodCall ''chainlink-env-1'' ''geth-0'' (Some PodSucceeded)) # [],
          files = noFiles\<rparr>)"
proof -
  let ?c = "gethOutput (10 * Second)" and ?s = "startState 0"
  let ?before = "[(0, ListPodsCall ''chainlink-env-1'' ''app=geth''),
                  (0, GetPodCall ''chainlink-env-1'' ''geth-0'' (Some PodPending)),
                  (0, SleepCall (2 * Second))]"
  have t: "Timeout (GetReadyCheckData ?c) \<noteq> 0" by (simp add: gethOutput_def Second_def)
  note F = terminal_phase_stops_polling[of ?c failingCluster ?s]
  note S = terminal_phase_stops_polling[of ?c finishedCluster ?s]
  from F t obtain r s' where res: "WaitForPodBySelectorRunning failingCluster ?c ?s = Some (r, s')"
    by (metis surj_pair)
  from res have s': "trace s' = trace ?s @ ?before
              @ (2 * Second, GetPodCall ''chainlink-env-1'' ''geth-0'' (Some PodFailed)) # []"
      and fl: "files s' = noFiles"
    unfolding failingCluster_run by (auto simp: startState_def)
  from F[THEN conjunct2, THEN conjunct1, rule_format, OF conjI[OF res s']]
  have f: "now s' = 2 * Second" "r = Inl (ErrorNew ''pod failed'')" by simp_all
  from S t obtain r2 s2 where res2: "WaitForPodBySelectorRunning finishedCluster ?c ?s = Some (r2, s2)"
    by (metis surj_pair)
  from res2 have s2: "trace s2 = trace ?s @ [(0, ListPodsCall ''chainlink-env-1'' ''app=geth'')]
              @ (0, GetPodCall ''chainlink-env-1'' ''geth-0'' (Some PodSucceeded)) # []"
      and fl2: "files s2 = noFiles"
    unfolding finishedCluster_run by (auto simp: startState_def)
  from S[THEN conjunct2, THEN conjunct2, rule_format, OF conjI[OF res2 s2]]
  have g: "now s2 = 0" "r2 = Inl (ErrorNew ''pod succeeded, are we expecting a Job type'')"
    by simp_all
  have e1: "s' = \<lparr>now = now s', trace = trace s', files = files s'\<rparr>" by simp
  have e2: "s2 = \<lparr>now = now s2, trace = trace s2, files = files s2\<rparr>" by simp
  show ?thesis
    apply (intro conjI)
      apply (rule t)
     apply (subst res, subst e1, simp only: f s' fl)
    apply (subst res2, subst e2, simp only: g s2 fl2)
    done
qed

subsection \<open>The Container-Ready check\<close>

lemma readyPodsLoop_no_statuses:
  "\<forall>pod \<in> set podList. ContainerStatuses pod = [] \<Longrightarrow> readyPodsLoop podList allReady = allReady"
  by (induction podList arbitrary: allReady) simp_all

text \<open>
  C10. With a positive timeout (the invariant of ReadyCheckData), when the first listing
  returns a non-empty pod list in which no pod reports any container status, the
  Container-Ready check finds nothing that is not ready and returns success on its
  first poll tick: one listing, no sleep, the clock unchanged.
\<close>

theorem WaitContainersReady_vacuous:
  assumes "0 < Timeout (GetReadyCheckData c)"
    and "podsList cl (now s) (GetNamespace c) (ReadinessProbeCheckSelector (GetReadyCheckData c))
           = Inr podList"
    and "podList \<noteq> []"
    and "\<forall>pod \<in> set podList. ContainerStatuses pod = []"
  shows "WaitContainersReady cl c s =
           (Inr (), emit (ListPodsCall (GetNamespace c)
                            (ReadinessProbeCheckSelector (GetReadyCheckData c))) s)"
  using assms readyPodsLoop_no_statuses[OF assms(4), of True]
  by (simp add: WaitContainersReady_def WithTimeout_def ListPods_def waitContainersLoop.simps)

theorem WaitContainersReady_vacuous_witness:
  "0 < Timeout (GetReadyCheckData (gethOutput (5 * Second)))
   \<and> podsList quietCluster (now (startState 0)) (GetNamespace (gethOutput (5 * Second)))
        (ReadinessProbeCheckSelector (GetReadyCheckData (gethOutput (5 * Second))))
      = Inr [gethPod ''geth-0'' PodRunning [], gethPod ''geth-1'' PodRunning []]
   \<and> [gethPod ''geth-0'' PodRunning [], gethPod ''geth-1'' PodRunning []] \<noteq> []
   \<and> WaitContainersReady quietCluster (gethOutput (5 * Second)) (startState 0)
      = (Inr (), \<lparr>now = 0, trace = [(0, ListPodsCall ''chainlink-env-1'' ''app=geth'')],
                 files = noFiles\<rparr>)"
proof -
  let ?pods = "[gethPod ''geth-0'' PodRunning [], gethPod ''geth-1'' PodRunning []]"
  have a: "0 < Timeout (GetReadyCheckData (gethOutput (5 * Second)))"
    by (simp add: gethOutput_def Second_def)
  have b: "podsList quietCluster (now (startState 0)) (GetNamespace (gethOutput (5 * Second)))
        (ReadinessProbeCheckSelector (GetReadyCheckData (gethOutput (5 * Second)))) = Inr ?pods"
    by (simp add: quietCluster_def gethOutput_def)
  have c: "?pods \<noteq> []" by simp
  have d: "\<forall>pod \<in> set ?pods. ContainerStatuses pod = []" by (simp add: gethPod_def)
  from WaitContainersReady_vacuous[OF a b c d] a b show ?thesis
    by (simp add: emit_def startState_def gethOutput_def)
qed

text \<open>
  The polling loop of the Container-Ready check, for any context: the clock only
  advances and the trace only grows; every listing is begun before the context is
  done; an error is the timeout, the empty-match error or an error of a listing; and
  when the pods are listed not ready for ever, the loop ends with the timeout, once
  the context is done.
\<close>

lemma waitContainersLoop_effects:
  "waitContainersLoop cl c ctx s = (r, s') \<Longrightarrow>
   now s \<le> now s'
   \<and> (\<exists>new. trace s' = trace s @ new
          \<and> (\<forall>t ns sel. (t, ListPodsCall ns sel) \<in> set new \<longrightarrow> t < ctx))"
proof (induction cl c ctx s arbitrary: r s' rule: waitContainersLoop.induct)
  case (1 cl c ctx s)
  let ?ns = "GetNamespace c" and ?sel = "ReadinessProbeCheckSelector (GetReadyCheckData c)"
  let ?s1 = "emit (ListPodsCall ?ns ?sel) s"
  have s1: "now ?s1 = now s" "trace ?s1 = trace s @ [(now s, ListPodsCall ?ns ?sel)]"
    by (simp_all add: emit_def)
  show ?case
  proof (cases "ctx \<le> now s")
    case True
    with "1.prems" show ?thesis by (simp add: waitContainersLoop.simps)
  next
    case False
    show ?thesis
    proof (cases "podsList cl (now s) ?ns ?sel")
      case (Inl err)
      with False "1.prems" have "s' = ?s1"
        by (simp add: waitContainersLoop.simps[of cl c ctx s] ListPods_def)
      with s1 False show ?thesis by simp
    next
      case (Inr podList)
      show ?thesis
      proof (cases "length podList = 0 \<or> readyPodsLoop podList True")
        case True
        with Inr False "1.prems" have "s' = ?s1"
          by (auto simp: waitContainersLoop.simps[of cl c ctx s] ListPods_def split: if_splits)
        with s1 False show ?thesis by simp
      next
        case ready: False
        let ?s2 = "Sleep ContainerStatePollInterval ?s1"
        from ready Inr False "1.prems" have rec: "waitContainersLoop cl c ctx ?s2 = (r, s')"
          by (simp add: waitContainersLoop.simps[of cl c ctx s] ListPods_def)
        have lp: "(Inr podList, ?s1) = ListPods cl ?ns ?sel s" by (simp add: ListPods_def Inr)
        from ready have "length podList \<noteq> 0" "\<not> readyPodsLoop podList True" by simp_all
        from "1.IH"[OF False lp refl this rec] obtain more where
          ih: "now ?s2 \<le> now s'" "trace s' = trace ?s2 @ more"
              "\<forall>t ns sel. (t, ListPodsCall ns sel) \<in> set more \<longrightarrow> t < ctx" by blast
        have s2: "now s \<le> now ?s2"
          "trace ?s2 = trace s @ [(now s, ListPodsCall ?ns ?sel), (now s, SleepCall ContainerStatePollInterval)]"
          by (simp_all add: Sleep_state s1)
        let ?new = "[(now s, ListPodsCall ?ns ?sel), (now s, SleepCall ContainerStatePollInterval)] @ more"
        have a: "trace s' = trace s @ ?new" using ih(2) s2(2) by simp
        have b: "\<forall>t ns sel. (t, ListPodsCall ns sel) \<in> set ?new \<longrightarrow> t < ctx"
          using ih(3) False by auto
        from ih(1) s2(1) a b show ?thesis by (intro conjI exI[of _ ?new]) simp_all
      qed
    qed
  qed
qed

lemma waitContainersLoop_errors:
  "waitContainersLoop cl c ctx s = (Inl err, s') \<Longrightarrow>
   err = ErrorNew ''timeout waiting container readiness probes''
   \<or> err = noPodsError c
   \<or> (\<exists>t. podsList cl t (GetNamespace c) (ReadinessProbeCheckSelector (GetReadyCheckData c)) = Inl err)"
proof (induction cl c ctx s rule: waitContainersLoop.induct)
  case (1 cl c ctx s)
  let ?ns = "GetNamespace c" and ?sel = "ReadinessProbeCheckSelector (GetReadyCheckData c)"
  let ?s1 = "emit (ListPodsCall ?ns ?sel) s"
  show ?case
  proof (cases "ctx \<le> now s")
    case True
    with "1.prems" show ?thesis by (simp add: waitContainersLoop.simps)
  next
    case False
    show ?thesis
    proof (cases "podsList cl (now s) ?ns ?sel")
      case (Inl e)
      with False "1.prems" have "err = e"
        by (simp add: waitContainersLoop.simps[of cl c ctx s] ListPods_def)
      with Inl show ?thesis by blast
    next
      case (Inr podList)
      show ?thesis
      proof (cases "length podList = 0 \<or> readyPodsLoop podList True")
        case True
        with Inr False "1.prems" have "err = noPodsError c"
          by (auto simp: waitContainersLoop.simps[of cl c ctx s] ListPods_def split: if_splits)
        then show ?thesis by simp
      next
        case ready: False
        let ?s2 = "Sleep ContainerStatePollInterval ?s1"
        from ready Inr False "1.prems" have rec: "waitContainersLoop cl c ctx ?s2 = (Inl err, s')"
          by (simp add: waitContainersLoop.simps[of cl c ctx s] ListPods_def)
        have lp: "(Inr podList, ?s1) = ListPods cl ?ns ?sel s" by (simp add: ListPods_def Inr)
        from ready have "length podList \<noteq> 0" "\<not> readyPodsLoop podList True" by simp_all
        from "1.IH"[OF False lp refl this rec] show ?thesis .
      qed
    qed
  qed
qed

lemma waitContainersLoop_never_ready:
  "(\<forall>t. now s \<le> t \<longrightarrow>
      (\<exists>podList. podsList cl t (GetNamespace c) (ReadinessProbeCheckSelector (GetReadyCheckData c))
                   = Inr podList \<and> podList \<noteq> [] \<and> \<not> readyPodsLoop podList True)) \<Longrightarrow>
   fst (waitContainersLoop cl c ctx s) = Inl (ErrorNew ''timeout waiting container readiness probes'')
   \<and> ctx \<le> now (snd (waitContainersLoop cl c ctx s))"
proof (induction cl c ctx s rule: waitContainersLoop.induct)
  case (1 cl c ctx s)
  let ?ns = "GetNamespace c" and ?sel = "ReadinessProbeCheckSelector (GetReadyCheckData c)"
  let ?s1 = "emit (ListPodsCall ?ns ?sel) s"
  show ?case
  proof (cases "ctx \<le> now s")
    case True
    then show ?thesis by (simp add: waitContainersLoop.simps)
  next
    case False
    from "1.prems" obtain podList where
      pl: "podsList cl (now s) ?ns ?sel = Inr podList" "podList \<noteq> []" "\<not> readyPodsLoop podList True"
      by force
    let ?s2 = "Sleep ContainerStatePollInterval ?s1"
    have rec: "waitContainersLoop cl c ctx s = waitContainersLoop cl c ctx ?s2"
      using False pl by (simp add: waitContainersLoop.simps[of cl c ctx s] ListPods_def)
    have lp: "(Inr podList, ?s1) = ListPods cl ?ns ?sel s" by (simp add: ListPods_def pl)
    have "now s \<le> now ?s2" by (simp add: Sleep_state emit_def)
    with "1.prems" have
      "\<forall>t. now ?s2 \<le> t \<longrightarrow>
        (\<exists>podList. podsList cl t ?ns ?sel = Inr podList \<and> podList \<noteq> [] \<and> \<not> readyPodsLoop podList True)"
      by auto
    from "1.IH"[OF False lp refl _ pl(3) this] pl(2) rec show ?thesis by simp
  qed
qed

subsection \<open>The Log-Substring check\<close>

text \<open>
  A pass of the scanner adds nothing to the trace and can only return nil. A tick over
  the pods adds log requests, no sleep; an error it returns is the context's or one of
  a log request. The polling loop begins every sleep before the context is done; an
  error it returns is its timeout or an error of a tick.
\<close>

lemma scanLoop_quiet:
  "scanLoop ctx substr ls n s = (out, s') \<Longrightarrow>
   trace s' = trace s \<and> (\<forall>x. out = Return x \<longrightarrow> x = Inr ())"
proof (induction ls arbitrary: n s)
  case Nil
  then show ?case by auto
next
  case (Cons a ls)
  obtain d line where a: "a = (d, line)" by (cases a)
  let ?s1 = "s\<lparr>now := now s + int d\<rparr>"
  show ?case
  proof (cases "ctx \<le> now s + int d \<or> MaxScanTokenSize \<le> length line")
    case True
    with Cons.prems a show ?thesis by (auto simp: Let_def split: if_splits)
  next
    case False
    with Cons.prems a have
      "scanLoop ctx substr ls (if Contains line substr then n + 1 else n) ?s1 = (out, s')"
      by (simp add: Let_def)
    from Cons.IH[OF this] show ?thesis by simp
  qed
qed

lemma logPodsLoop_effects:
  "logPodsLoop cl c ctx podCount pods n s = (out, s') \<Longrightarrow>
   (\<exists>new. trace s' = trace s @ new \<and> (\<forall>t d. (t, SleepCall d) \<notin> set new))
   \<and> (\<forall>err. out = Return (Inl err) \<longrightarrow>
         err = DeadlineExceeded
         \<or> (\<exists>t name. podsGetLogs cl t (GetNamespace c) name (Container (GetReadyCheckData c)) = Inl err))"
proof (induction pods arbitrary: n s)
  case Nil
  then show ?case by auto
next
  case (Cons pod pods)
  let ?ns = "GetNamespace c" and ?ct = "Container (GetReadyCheckData c)"
  let ?s1 = "emit (GetLogsCall ?ns (Name pod) ?ct) s"
  have s1: "trace ?s1 = trace s @ [(now s, GetLogsCall ?ns (Name pod) ?ct)]" "now ?s1 = now s"
    by (simp_all add: emit_def)
  let ?r1 = "if ctx \<le> now s then Inl DeadlineExceeded else podsGetLogs cl (now s) ?ns (Name pod) ?ct"
  have st: "Stream cl ?ns (Name pod) ?ct ctx s = (?r1, ?s1)" by (simp add: Stream_def)
  show ?case
  proof (cases ?r1)
    case (Inl e)
    with Cons.prems st have o: "out = Return (Inl e)" "s' = ?s1" by simp_all
    from Inl have "e = DeadlineExceeded \<or> podsGetLogs cl (now s) ?ns (Name pod) ?ct = Inl e"
      by (auto split: if_splits)
    with o s1 show ?thesis by auto
  next
    case (Inr lines)
    obtain o2 s2 where sc: "scanLoop ctx (LogSubStr (GetReadyCheckData c)) lines n ?s1 = (o2, s2)"
      by (cases "scanLoop ctx (LogSubStr (GetReadyCheckData c)) lines n ?s1")
    from scanLoop_quiet[OF sc] s1 have
      t2: "trace s2 = trace s @ [(now s, GetLogsCall ?ns (Name pod) ?ct)]"
      and ret: "\<forall>x. o2 = Return x \<longrightarrow> x = Inr ()" by simp_all
    show ?thesis
    proof (cases o2)
      case (Return x)
      with ret have "x = Inr ()" by simp
      with Cons.prems st Inr sc Return have "out = Return (Inr ())" "s' = s2" by simp_all
      with t2 show ?thesis by auto
    next
      case (Next found)
      show ?thesis
      proof (cases "found = podCount")
        case True
        with Cons.prems st Inr sc Next have "out = Return (Inr ())" "s' = s2" by simp_all
        with t2 show ?thesis by auto
      next
        case False
        with Cons.prems st Inr sc Next have "logPodsLoop cl c ctx podCount pods found s2 = (out, s')"
          by simp
        from Cons.IH[OF this] obtain more where
          ih: "trace s' = trace s2 @ more" "\<forall>t d. (t, SleepCall d) \<notin> set more"
            "\<forall>err. out = Return (Inl err) \<longrightarrow>
               err = DeadlineExceeded
               \<or> (\<exists>t name. podsGetLogs cl t ?ns name ?ct = Inl err)" by blast
        let ?new = "[(now s, GetLogsCall ?ns (Name pod) ?ct)] @ more"
        have "trace s' = trace s @ ?new" using ih(1) t2 by simp
        moreover have "\<forall>t d. (t, SleepCall d) \<notin> set ?new" using ih(2) by auto
        ultimately show ?thesis using ih(3) by blast
      qed
    qed
  qed
qed

lemma waitLogLoop_effects:
  "waitLogLoop cl c pods ctx n s = (r, s') \<Longrightarrow>
   (\<exists>new. trace s' = trace s @ new \<and> (\<forall>t d. (t, SleepCall d) \<in> set new \<longrightarrow> t < ctx))
   \<and> (\<forall>err. r = Inl err \<longrightarrow>
         err = ErrorNew ''timeout waiting for logs''
         \<or> err = DeadlineExceeded
         \<or> (\<exists>t name. podsGetLogs cl t (GetNamespace c) name (Container (GetReadyCheckData c)) = Inl err))"
proof (induction cl c pods ctx n s rule: waitLogLoop.induct)
  case (1 cl c pods ctx n s)
  show ?case
  proof (cases "ctx \<le> now s")
    case True
    with "1.prems" show ?thesis by (auto simp: waitLogLoop.simps)
  next
    case False
    let ?s1 = "Sleep LogPollInterval s"
    have s1: "trace ?s1 = trace s @ [(now s, SleepCall LogPollInterval)]"
      by (simp add: Sleep_state)
    obtain out s2 where lp: "logPodsLoop cl c ctx (length pods) pods n ?s1 = (out, s2)"
      by (cases "logPodsLoop cl c ctx (length pods) pods n ?s1")
    from logPodsLoop_effects[OF lp] obtain mid where
      mid: "trace s2 = trace ?s1 @ mid" "\<forall>t d. (t, SleepCall d) \<notin> set mid"
        "\<forall>err. out = Return (Inl err) \<longrightarrow>
           err = DeadlineExceeded
           \<or> (\<exists>t name. podsGetLogs cl t (GetNamespace c) name (Container (GetReadyCheckData c)) = Inl err)"
      by blast
    let ?new1 = "[(now s, SleepCall LogPollInterval)] @ mid"
    have t2: "trace s2 = trace s @ ?new1" using mid(1) s1 by simp
    have q2: "\<forall>t d. (t, SleepCall d) \<in> set ?new1 \<longrightarrow> t < ctx" using mid(2) False by auto
    show ?thesis
    proof (cases out)
      case (Return x)
      with False lp "1.prems" have "r = x" "s' = s2"
        by (simp_all add: waitLogLoop.simps[of cl c pods ctx n s])
      with t2 q2 mid(3) Return show ?thesis by blast
    next
      case (Next found)
      with False lp "1.prems" have "waitLogLoop cl c pods ctx found s2 = (r, s')"
        by (simp add: waitLogLoop.simps[of cl c pods ctx n s])
      from "1.IH"[OF False lp[symmetric] Next this] obtain more where
        ih: "trace s' = trace s2 @ more" "\<forall>t d. (t, SleepCall d) \<in> set more \<longrightarrow> t < ctx"
          "\<forall>err. r = Inl err \<longrightarrow>
             err = ErrorNew ''timeout waiting for logs''
             \<or> err = DeadlineExceeded
             \<or> (\<exists>t name. podsGetLogs cl t (GetNamespace c) name (Container (GetReadyCheckData c)) = Inl err)"
        by blast
      have "trace s' = trace s @ (?new1 @ more)" using ih(1) t2 by simp
      moreover have "\<forall>t d. (t, SleepCall d) \<in> set (?new1 @ more) \<longrightarrow> t < ctx"
        using ih(2) q2 by auto
      ultimately show ?thesis using ih(3) by blast
    qed
  qed
qed

text \<open>
  C2. The claim asks for one match per pod and success exactly when every pod has
  logged the substring. The code adds one to \<open>logLinesFound\<close> for every matching line of
  every pod on every tick and compares the sum with the number of pods. Two runs show
  it. With two pods of which only the first logs \<open>started\<close> (twice), the check succeeds
  after reading the first pod alone. With a single pod that logs \<open>started\<close> twice, the
  count goes 2, 4, ... and never equals 1: the check never succeeds and ends with the
  stream request failing after the deadline.
\<close>

theorem log_matches_counted_per_line:
  "WaitLogMessages chattyCluster (gethOutput (10 * Second)) (startState 0) =
     (Inr (),
       \<lparr>now = 2 * Second,
        trace = [(0, ListPodsCall ''chainlink-env-1'' ''app=geth''),
                 (0, SleepCall (2 * Second)),
                 (2 * Second, GetLogsCall ''chainlink-env-1'' ''geth-0'' ''geth'')],
        files = noFiles\<rparr>)
   \<and> WaitLogMessages loneChattyCluster (gethOutput (5 * Second)) (startState 0) =
     (Inl (ErrorNew ''context deadline exceeded''),
       \<lparr>now = 6 * Second,
        trace = [(0, ListPodsCall ''chainlink-env-1'' ''app=geth''),
                 (0, SleepCall (2 * Second)),
                 (2 * Second, GetLogsCall ''chainlink-env-1'' ''geth-0'' ''geth''),
                 (2 * Second, SleepCall (2 * Second)),
                 (4 * Second, GetLogsCall ''chainlink-env-1'' ''geth-0'' ''geth''),
                 (4 * Second, SleepCall (2 * Second)),
                 (6 * Second, GetLogsCall ''chainlink-env-1'' ''geth-0'' ''geth'')],
        files = noFiles\<rparr>)"
  by (simp add: run_simps chattyCluster_def loneChattyCluster_def)

text \<open>
  C3. The claim asks every phase to fail at once on a selector that matches no pod. The
  Pod-Running and the Container-Ready check do so: one listing, the empty-match error,
  the clock unchanged. The Log-Substring check has no such test: with no pod to read it
  sleeps through every poll tick and ends with its timeout error after the deadline.
\<close>

theorem empty_log_selector_waits_out_timeout:
  "WaitForPodBySelectorRunning quietCluster (strayOutput (5 * Second)) (startState 0) =
     Some (Inl (Errorf ''no pods in %s with selector %s''
                  [ArgString ''chainlink-env-1'', ArgDuration (5 * Second)]),
       \<lparr>now = 0, trace = [(0, ListPodsCall ''chainlink-env-1'' ''app=mockserver'')],
        files = noFiles\<rparr>)
   \<and> WaitContainersReady quietCluster (strayOutput (5 * Second)) (startState 0) =
     (Inl (Errorf ''no pods in %s with selector %s''
                  [ArgString ''chainlink-env-1'', ArgDuration (5 * Second)]),
       \<lparr>now = 0, trace = [(0, ListPodsCall ''chainlink-env-1'' ''app=mockserver'')],
        files = noFiles\<rparr>)
   \<and> WaitLogMessages quietCluster (strayOutput (5 * Second)) (startState 0) =
     (Inl (ErrorNew ''timeout waiting for logs''),
       \<lparr>now = 6 * Second,
        trace = [(0, ListPodsCall ''chainlink-env-1'' ''app=mockserver''),
                 (0, SleepCall (2 * Second)),
                 (2 * Second, SleepCall (2 * Second)),
                 (4 * Second, SleepCall (2 * Second))],
        files = noFiles\<rparr>)"
  by (simp add: run_simps quietCluster_def)

subsection \<open>The combined check\<close>

text \<open>
  C5. In \<open>CheckReady\<close> the Container-Ready check starts only from the state the Pod-Running
  check returned success in, and by then every listed pod has been observed Running: the
  observation is in the part of the trace the Pod-Running check added, and everything
  the Container-Ready check does comes after it. When the Pod-Running check returns an
  error, \<open>CheckReady\<close> returns that error in the very state the check ended in, so nothing
  of the Container-Ready check has run; when it does not return, neither does
  \<open>CheckReady\<close>. The result of the Container-Ready check, error or success, is the result
  of \<open>CheckReady\<close>.
\<close>

theorem CheckReady_phase_order:
  "(\<forall>err s1. WaitForPodBySelectorRunning cl c s = Some (Inl err, s1) \<longrightarrow>
       CheckReady cl c s = Some (Inl err, s1))
   \<and> (\<forall>s1. WaitForPodBySelectorRunning cl c s = Some (Inr (), s1) \<longrightarrow>
         CheckReady cl c s = Some (WaitContainersReady cl c s1)
         \<and> (\<exists>podList new.
               podsList cl (now s) (GetNamespace c)
                 (ReadinessProbeCheckSelector (GetReadyCheckData c)) = Inr podList
               \<and> trace s1 = trace s @ new
               \<and> (\<forall>pod \<in> set podList.
                     \<exists>t. (t, GetPodCall (GetNamespace c) (Name pod) (Some PodRunning)) \<in> set new))
         \<and> (\<exists>more. trace (snd (WaitContainersReady cl c s1)) = trace s1 @ more))
   \<and> (WaitForPodBySelectorRunning cl c s = None \<longrightarrow> CheckReady cl c s = None)"
proof (intro conjI allI impI)
  fix err s1
  assume "WaitForPodBySelectorRunning cl c s = Some (Inl err, s1)"
  then show "CheckReady cl c s = Some (Inl err, s1)" by (simp add: CheckReady_def)
next
  fix s1
  assume a: "WaitForPodBySelectorRunning cl c s = Some (Inr (), s1)"
  then show "CheckReady cl c s = Some (WaitContainersReady cl c s1)" by (simp add: CheckReady_def)
  from WaitForPodBySelectorRunning_segment[OF a]
  show "\<exists>podList new.
               podsList cl (now s) (GetNamespace c)
                 (ReadinessProbeCheckSelector (GetReadyCheckData c)) = Inr podList
               \<and> trace s1 = trace s @ new
               \<and> (\<forall>pod \<in> set podList.
                     \<exists>t. (t, GetPodCall (GetNamespace c) (Name pod) (Some PodRunning)) \<in> set new)"
    by auto
  obtain r s' where w: "WaitContainersReady cl c s1 = (r, s')" by (cases "WaitContainersReady cl c s1")
  from waitContainersLoop_effects[OF w[unfolded WaitContainersReady_def]] w
  show "\<exists>more. trace (snd (WaitContainersReady cl c s1)) = trace s1 @ more" by auto
next
  assume "WaitForPodBySelectorRunning cl c s = None"
  then show "CheckReady cl c s = None" by (simp add: CheckReady_def)
qed

lemma startingCluster_run:
  "WaitForPodBySelectorRunning startingCluster (gethOutput (10 * Second)) (startState 0) =
     Some (Inr (),
       \<lparr>now = 2 * Second,
        trace = [(0, ListPodsCall ''chainlink-env-1'' ''app=geth''),
                 (0, GetPodCall ''chainlink-env-1'' ''geth-0'' (Some PodPending)),
                 (0, SleepCall (2 * Second)),
                 (2 * Second, GetPodCall ''chainlink-env-1'' ''geth-0'' (Some PodRunning))],
        files = noFiles\<rparr>)"
  by (simp add: run_simps startingCluster_def)

lemma startingCluster_containers_run:
  "WaitContainersReady startingCluster (gethOutput (10 * Second))
       \<lparr>now = 2 * Second,
        trace = [(0, ListPodsCall ''chainlink-env-1'' ''app=geth''),
                 (0, GetPodCall ''chainlink-env-1'' ''geth-0'' (Some PodPending)),
                 (0, SleepCall (2 * Second)),
                 (2 * Second, GetPodCall ''chainlink-env-1'' ''geth-0'' (Some PodRunning))],
        files = noFiles\<rparr> =
     (Inr (),
       \<lparr>now = 4 * Second,
        trace = [(0, ListPodsCall ''chainlink-env-1'' ''app=geth''),
                 (0, GetPodCall ''chainlink-env-1'' ''geth-0'' (Some PodPending)),
                 (0, SleepCall (2 * Second)),
                 (2 * Second, GetPodCall ''chainlink-env-1'' ''geth-0'' (Some PodRunning)),
                 (2 * Second, ListPodsCall ''chainlink-env-1'' ''app=geth''),
                 (2 * Second, SleepCall (2 * Second)),
                 (4 * Second, ListPodsCall ''chainlink-env-1'' ''app=geth'')],
        files = noFiles\<rparr>)"
  by (simp add: run_simps startingCluster_def)

theorem CheckReady_phase_order_witness:
  "WaitForPodBySelectorRunning startingCluster (gethOutput (10 * Second)) (startState 0) =
     Some (Inr (),
       \<lparr>now = 2 * Second,
        trace = [(0, ListPodsCall ''chainlink-env-1'' ''app=geth''),
                 (0, GetPodCall ''chainlink-env-1'' ''geth-0'' (Some PodPending)),
                 (0, SleepCall (2 * Second)),
                 (2 * Second, GetPodCall ''chainlink-env-1'' ''geth-0'' (Some PodRunning))],
        files = noFiles\<rparr>)
   \<and> CheckReady startingCluster (gethOutput (10 * Second)) (startState 0) =
     Some (Inr (),
       \<lparr>now = 4 * Second,
        trace = [(0, ListPodsCall ''chainlink-env-1'' ''app=geth''),
                 (0, GetPodCall ''chainlink-env-1'' ''geth-0'' (Some PodPending)),
                 (0, SleepCall (2 * Second)),
                 (2 * Second, GetPodCall ''chainlink-env-1'' ''geth-0'' (Some PodRunning)),
                 (2 * Second, ListPodsCall ''chainlink-env-1'' ''app=geth''),
                 (2 * Second, SleepCall (2 * Second)),
                 (4 * Second, ListPodsCall ''chainlink-env-1'' ''app=geth'')],
        files = noFiles\<rparr>)
   \<and> WaitForPodBySelectorRunning failingCluster (gethOutput (10 * Second)) (startState 0) =
     Some (Inl (ErrorNew ''pod failed''),
       \<lparr>now = 2 * Second,
        trace = [(0, ListPodsCall ''chainlink-env-1'' ''app=geth''),
                 (0, GetPodCall ''chainlink-env-1'' ''geth-0'' (Some PodPending)),
                 (0, SleepCall (2 * Second)),
                 (2 * Second, GetPodCall ''chainlink-env-1'' ''geth-0'' (Some PodFailed))],
        files = noFiles\<rparr>)
   \<and> CheckReady failingCluster (gethOutput (10 * Second)) (startState 0) =
     Some (Inl (ErrorNew ''pod failed''),
       \<lparr>now = 2 * Second,
        trace = [(0, ListPodsCall ''chainlink-env-1'' ''app=geth''),
                 (0, GetPodCall ''chainlink-env-1'' ''geth-0'' (Some PodPending)),
                 (0, SleepCall (2 * Second)),
                 (2 * Second, GetPodCall ''chainlink-env-1'' ''geth-0'' (Some PodFailed))],
        files = noFiles\<rparr>)"
proof -
  note A = CheckReady_phase_order[of startingCluster "gethOutput (10 * Second)" "startState 0"]
  note B = CheckReady_phase_order[of failingCluster "gethOutput (10 * Second)" "startState 0"]
  from A[THEN conjunct2, THEN conjunct1, rule_format, OF startingCluster_run, THEN conjunct1]
  have a: "CheckReady startingCluster (gethOutput (10 * Second)) (startState 0) =
     Some (Inr (),
       \<lparr>now = 4 * Second,
        trace = [(0, ListPodsCall ''chainlink-env-1'' ''app=geth''),
                 (0, GetPodCall ''chainlink-env-1'' ''geth-0'' (Some PodPending)),
                 (0, SleepCall (2 * Second)),
                 (2 * Second, GetPodCall ''chainlink-env-1'' ''geth-0'' (Some PodRunning)),
                 (2 * Second, ListPodsCall ''chainlink-env-1'' ''app=geth''),
                 (2 * Second, SleepCall (2 * Second)),
                 (4 * Second, ListPodsCall ''chainlink-env-1'' ''app=geth'')],
        files = noFiles\<rparr>)"
    by (simp only: startingCluster_containers_run)
  note b = B[THEN conjunct1, rule_format, OF failingCluster_run]
  show ?thesis
    by (intro conjI) (rule startingCluster_run a failingCluster_run b)+
qed

subsection \<open>Deadlines and timeout errors\<close>


lemma neverReadyCluster_run:
  "WaitContainersReady neverReadyCluster (gethOutput (3 * Second)) (startState 0) =
     (Inl (ErrorNew ''timeout waiting container readiness probes''),
       \<lparr>now = 4 * Second,
        trace = [(0, ListPodsCall ''chainlink-env-1'' ''app=geth''),
                 (0, SleepCall (2 * Second)),
                 (2 * Second, ListPodsCall ''chainlink-env-1'' ''app=geth''),
                 (2 * Second, SleepCall (2 * Second))],
        files = noFiles\<rparr>)"
  by (simp add: run_simps neverReadyCluster_def)

text \<open>
  A timeout of two poll intervals: the second sleep ends at the very deadline. When the
  timer has no lag the check finds its context done and reports the timeout at 4 s;
  when the timer lags it lists once more and reports the timeout at 6 s.
\<close>

lemma neverReadyCluster_tie_run:
  "WaitContainersReady neverReadyCluster (gethOutput (4 * Second)) (startState 0) =
     (Inl (ErrorNew ''timeout waiting container readiness probes''),
       \<lparr>now = 4 * Second,
        trace = [(0, ListPodsCall ''chainlink-env-1'' ''app=geth''),
                 (0, SleepCall (2 * Second)),
                 (2 * Second, ListPodsCall ''chainlink-env-1'' ''app=geth''),
                 (2 * Second, SleepCall (2 * Second))],
        files = noFiles\<rparr>)"
  by (simp add: run_simps neverReadyCluster_def)


lemma lateLogCluster_run:
  "WaitLogMessages lateLogCluster (gethOutput (3 * Second)) (startState 0) =
     (Inl (ErrorNew ''timeout waiting for logs''),
       \<lparr>now = 3 * Second,
        trace = [(0, ListPodsCall ''chainlink-env-1'' ''app=geth''),
                 (0, SleepCall (2 * Second)),
                 (2 * Second, GetLogsCall ''chainlink-env-1'' ''geth-0'' ''geth'')],
        files = noFiles\<rparr>)"
  by (simp add: run_simps lateLogCluster_def)

lemma neverReadyCluster_lists:
  "\<forall>t. now (startState 0) \<le> t \<longrightarrow>
      (\<exists>podList. podsList neverReadyCluster t (GetNamespace (gethOutput (3 * Second)))
                     (ReadinessProbeCheckSelector (GetReadyCheckData (gethOutput (3 * Second))))
                   = Inr podList
                  \<and> podList \<noteq> [] \<and> \<not> readyPodsLoop podList True)"
  by (simp add: neverReadyCluster_def gethCluster_def gethOutput_def gethPod_def)



text \<open>
  C6, as claimed, fails. The claim asks for a timeout error that carries the selector and
  the namespace. The timeout error of the Container-Ready check and the timeout error of
  the Log-Substring check are fixed messages: in the two runs below, the deadline
  passes before success, and neither the namespace nor the selector of the check
  occurs in the error returned.
\<close>

theorem timeout_error_counterexample:
  "WaitContainersReady neverReadyCluster (gethOutput (3 * Second)) (startState 0) =
     (Inl (ErrorNew ''timeout waiting container readiness probes''),
       \<lparr>now = 4 * Second,
        trace = [(0, ListPodsCall ''chainlink-env-1'' ''app=geth''),
                 (0, SleepCall (2 * Second)),
                 (2 * Second, ListPodsCall ''chainlink-env-1'' ''app=geth''),
                 (2 * Second, SleepCall (2 * Second))],
        files = noFiles\<rparr>)
   \<and> \<not> Contains ''timeout waiting container readiness probes''
         (GetNamespace (gethOutput (3 * Second)))
   \<and> \<not> Contains ''timeout waiting container readiness probes''
         (ReadinessProbeCheckSelector (GetReadyCheckData (gethOutput (3 * Second))))
   \<and> WaitLogMessages lateLogCluster (gethOutput (3 * Second)) (startState 0) =
     (Inl (ErrorNew ''timeout waiting for logs''),
       \<lparr>now = 3 * Second,
        trace = [(0, ListPodsCall ''chainlink-env-1'' ''app=geth''),
                 (0, SleepCall (2 * Second)),
                 (2 * Second, GetLogsCall ''chainlink-env-1'' ''geth-0'' ''geth'')],
        files = noFiles\<rparr>)
   \<and> \<not> Contains ''timeout waiting for logs'' (GetNamespace (gethOutput (3 * Second)))
   \<and> \<not> Contains ''timeout waiting for logs'' (Selector (GetReadyCheckData (gethOutput (3 * Second))))"
  by (simp add: run_simps neverReadyCluster_def lateLogCluster_def)

text \<open>
  C6, amended. The errors the two checks return for a passed deadline are fixed messages
  that carry neither selector nor namespace. Every error of the Container-Ready check is
  the fixed \<open>timeout waiting container readiness probes\<close>, the empty-match error or an
  error of a listing, passed on; while the pods are listed not ready it is the first.
  Every error of the Log-Substring check is the fixed \<open>timeout waiting for logs\<close>,
  the context's error of a log request made after the deadline, or an error of the
  listing or of a log request, passed on.
\<close>

theorem timeout_errors_are_fixed:
  "(\<forall>err s'. WaitContainersReady cl c s = (Inl err, s') \<longrightarrow>
       err = ErrorNew ''timeout waiting container readiness probes''
       \<or> err = noPodsError c
       \<or> (\<exists>t. podsList cl t (GetNamespace c)
                 (ReadinessProbeCheckSelector (GetReadyCheckData c)) = Inl err))
   \<and> ((\<forall>t. now s \<le> t \<longrightarrow>
          (\<exists>podList. podsList cl t (GetNamespace c)
                         (ReadinessProbeCheckSelector (GetReadyCheckData c)) = Inr podList
                      \<and> podList \<noteq> [] \<and> \<not> readyPodsLoop podList True)) \<longrightarrow>
        fst (WaitContainersReady cl c s)
          = Inl (ErrorNew ''timeout waiting container readiness probes''))
   \<and> (\<forall>err s'. WaitLogMessages cl c s = (Inl err, s') \<longrightarrow>
         err = ErrorNew ''timeout waiting for logs''
         \<or> err = DeadlineExceeded
         \<or> (\<exists>t. podsList cl t (GetNamespace c) (Selector (GetReadyCheckData c)) = Inl err)
         \<or> (\<exists>t name. podsGetLogs cl t (GetNamespace c) name (Container (GetReadyCheckData c))
                        = Inl err))"
proof (intro conjI allI impI)
  fix err s'
  assume "WaitContainersReady cl c s = (Inl err, s')"
  from waitContainersLoop_errors[OF this[unfolded WaitContainersReady_def]]
  show "err = ErrorNew ''timeout waiting container readiness probes''
       \<or> err = noPodsError c
       \<or> (\<exists>t. podsList cl t (GetNamespace c)
                 (ReadinessProbeCheckSelector (GetReadyCheckData c)) = Inl err)" .
next
  assume h: "\<forall>t. now s \<le> t \<longrightarrow>
          (\<exists>podList. podsList cl t (GetNamespace c)
                         (ReadinessProbeCheckSelector (GetReadyCheckData c)) = Inr podList
                      \<and> podList \<noteq> [] \<and> \<not> readyPodsLoop podList True)"
  from waitContainersLoop_never_ready[OF h]
  show "fst (WaitContainersReady cl c s)
          = Inl (ErrorNew ''timeout waiting container readiness probes'')"
    by (simp add: WaitContainersReady_def)
next
  fix err s'
  assume a: "WaitLogMessages cl c s = (Inl err, s')"
  let ?ns = "GetNamespace c" and ?sel = "Selector (GetReadyCheckData c)"
  show "err = ErrorNew ''timeout waiting for logs''
         \<or> err = DeadlineExceeded
         \<or> (\<exists>t. podsList cl t ?ns ?sel = Inl err)
         \<or> (\<exists>t name. podsGetLogs cl t ?ns name (Container (GetReadyCheckData c)) = Inl err)"
  proof (cases "podsList cl (now s) ?ns ?sel")
    case (Inl e)
    with a have "err = e" by (simp add: WaitLogMessages_def ListPods_def)
    with Inl show ?thesis by blast
  next
    case (Inr pods)
    with a have "waitLogLoop cl c pods
        (WithTimeout cl (Timeout (GetReadyCheckData c)) (emit (ListPodsCall ?ns ?sel) s)) 0
        (emit (ListPodsCall ?ns ?sel) s) = (Inl err, s')"
      by (simp add: WaitLogMessages_def ListPods_def)
    from waitLogLoop_effects[OF this] show ?thesis by blast
  qed
qed

theorem timeout_errors_are_fixed_witness:
  "WaitContainersReady neverReadyCluster (gethOutput (3 * Second)) (startState 0) =
     (Inl (ErrorNew ''timeout waiting container readiness probes''),
       \<lparr>now = 4 * Second,
        trace = [(0, ListPodsCall ''chainlink-env-1'' ''app=geth''),
                 (0, SleepCall (2 * Second)),
                 (2 * Second, ListPodsCall ''chainlink-env-1'' ''app=geth''),
                 (2 * Second, SleepCall (2 * Second))],
        files = noFiles\<rparr>)
   \<and> fst (WaitContainersReady neverReadyCluster (gethOutput (3 * Second)) (startState 0))
       = Inl (ErrorNew ''timeout waiting container readiness probes'')
   \<and> WaitLogMessages lateLogCluster (gethOutput (3 * Second)) (startState 0) =
     (Inl (ErrorNew ''timeout waiting for logs''),
       \<lparr>now = 3 * Second,
        trace = [(0, ListPodsCall ''chainlink-env-1'' ''app=geth''),
                 (0, SleepCall (2 * Second)),
                 (2 * Second, GetLogsCall ''chainlink-env-1'' ''geth-0'' ''geth'')],
        files = noFiles\<rparr>)
   \<and> (ErrorNew ''timeout waiting for logs'' = ErrorNew ''timeout waiting for logs''
       \<or> ErrorNew ''timeout waiting for logs'' = DeadlineExceeded
       \<or> (\<exists>t. podsList lateLogCluster t (GetNamespace (gethOutput (3 * Second)))
                 (Selector (GetReadyCheckData (gethOutput (3 * Second))))
               = Inl (ErrorNew ''timeout waiting for logs''))
       \<or> (\<exists>t name. podsGetLogs lateLogCluster t (GetNamespace (gethOutput (3 * Second))) name
                       (Container (GetReadyCheckData (gethOutput (3 * Second))))
                     = Inl (ErrorNew ''timeout waiting for logs'')))
   \<and> (ErrorNew ''timeout waiting container readiness probes''
         = ErrorNew ''timeout waiting container readiness probes''
       \<or> ErrorNew ''timeout waiting container readiness probes''
         = noPodsError (gethOutput (3 * Second))
       \<or> (\<exists>t. podsList neverReadyCluster t (GetNamespace (gethOutput (3 * Second)))
                 (ReadinessProbeCheckSelector (GetReadyCheckData (gethOutput (3 * Second))))
               = Inl (ErrorNew ''timeout waiting container readiness probes'')))"
proof -
  note A = timeout_errors_are_fixed[of neverReadyCluster "gethOutput (3 * Second)" "startState 0"]
  note B = timeout_errors_are_fixed[of lateLogCluster "gethOutput (3 * Second)" "startState 0"]
  note a = A[THEN conjunct1, rule_format, OF neverReadyCluster_run]
  note b = A[THEN conjunct2, THEN conjunct1, THEN mp, OF neverReadyCluster_lists]
  note d = B[THEN conjunct2, THEN conjunct2, rule_format, OF lateLogCluster_run]
  show ?thesis
    by (intro conjI) (rule neverReadyCluster_run b lateLogCluster_run d a)+
qed

end
